theory Spec2Isabelle
  imports Main
begin

section \<open>The relational store\<close>

text \<open>
  The server keeps all of its data in PostgreSQL. The four tables are modelled from the
  \<^verbatim>\<open>CREATE TABLE\<close> statements of \<^verbatim>\<open>initializeDatabase\<close>: a row is a record, a table is
  the list of its rows in insertion order, and a table that has not been created is
  \<open>None\<close>. Nullable columns are options. Currency amounts (the \<^verbatim>\<open>DECIMAL(10,2)\<close>
  columns and the prices of a request) are exact integers counting hundredths; timestamps
  and dates are natural numbers read from a clock that is passed in. A statement checks the
  values it stores against the types of the columns: the length of a \<^verbatim>\<open>VARCHAR(n)\<close>, the
  range of an \<^verbatim>\<open>INTEGER\<close>, the precision of a \<^verbatim>\<open>DECIMAL(10,2)\<close>.
\<close>

datatype error =
    UndefinedTable
  | DuplicateTable
  | NotNullViolation
  | ForeignKeyViolation
  | UniqueViolation
  | StringDataRightTruncation
  | NumericValueOutOfRange
  | InvalidTextRepresentation
  | InFailedSqlTransaction
  | ConnectionFailure
  | QueryFault
  | TypeError
  | IllegalArguments
  | SecretMissing

record user =
  u_id :: int
  u_full_name :: string
  u_email :: string
  u_password :: string
  u_role :: "string option"
  u_status :: "string option"
  u_bio :: "string option"
  u_created_at :: nat
  u_last_login :: "nat option"

record product =
  p_id :: int
  p_name :: string
  p_category :: string
  p_purchase_price :: int
  p_selling_price :: int
  p_stock :: int
  p_created_at :: nat
  p_updated_at :: nat

record sale =
  s_id :: int
  s_date :: nat
  s_customer :: string
  s_total :: int
  s_user_id :: "int option"
  s_created_at :: nat

record sale_item =
  si_id :: int
  si_sale_id :: "int option"
  si_product_id :: "int option"
  si_quantity :: int
  si_unit_price :: int
  si_total_price :: int

record tables =
  users :: "user list option"
  products :: "product list option"
  sales :: "sale list option"
  sale_items :: "sale_item list option"

text \<open>
  Every \<^verbatim>\<open>id SERIAL\<close> column draws from a sequence. A sequence holds the next value it
  hands out; it is not part of the transactional state: a value drawn inside a
  transaction stays drawn when the transaction is rolled back.
\<close>

record sequences =
  users_id_seq :: int
  products_id_seq :: int
  sales_id_seq :: int
  sale_items_id_seq :: int

record database =
  tabs :: tables
  seqs :: sequences

type_synonym 'r statement = "database \<Rightarrow> database \<times> (error + 'r)"

definition has_key :: "('a \<Rightarrow> int) \<Rightarrow> 'a list option \<Rightarrow> int \<Rightarrow> bool" where
  "has_key key t k = (case t of None \<Rightarrow> False | Some rows \<Rightarrow> k \<in> set (map key rows))"

definition CURRENT_DATE :: "nat \<Rightarrow> nat" where
  "CURRENT_DATE now = now div 86400"

subsection \<open>Column types\<close>

text \<open>\<^verbatim>\<open>VARCHAR(n)\<close>: a string of at most \<open>n\<close> characters is stored as it is; a longer one
  is refused, unless all it has beyond \<open>n\<close> characters are spaces, which are cut off.\<close>

definition varchar :: "nat \<Rightarrow> string \<Rightarrow> string option" where
  "varchar n s =
     (if length s \<le> n then Some s
      else if list_all (\<lambda>c. c = CHR '' '') (drop n s) then Some (take n s)
      else None)"

text \<open>\<^verbatim>\<open>INTEGER\<close>: four bytes, signed.\<close>

definition in_integer :: "int \<Rightarrow> bool" where
  "in_integer v \<longleftrightarrow> - 2147483648 \<le> v \<and> v \<le> 2147483647"

text \<open>\<^verbatim>\<open>DECIMAL(10,2)\<close>: ten digits, two of them after the point; in hundredths, an
  absolute value of at most 9999999999.\<close>

definition in_decimal :: "int \<Rightarrow> bool" where
  "in_decimal v \<longleftrightarrow> - 9999999999 \<le> v \<and> v \<le> 9999999999"

text \<open>The text of a parameter read as an \<^verbatim>\<open>INTEGER\<close>: white space, an optional sign, at
  least one decimal digit, white space; anything else is refused, and so is a number out
  of range.\<close>

definition is_space :: "char \<Rightarrow> bool" where
  "is_space c \<longleftrightarrow> c \<in> set [CHR '' '', CHR 0x09, CHR 0x0A, CHR 0x0B, CHR 0x0C, CHR 0x0D]"

definition is_digit :: "char \<Rightarrow> bool" where
  "is_digit c \<longleftrightarrow> c \<in> set ''0123456789''"

definition digit_value :: "char \<Rightarrow> int" where
  "digit_value c = int (length (takeWhile (\<lambda>x. x \<noteq> c) ''0123456789''))"

definition decimal :: "string \<Rightarrow> int" where
  "decimal ds = foldl (\<lambda>n c. 10 * n + digit_value c) 0 ds"

definition integer_of_text :: "string \<Rightarrow> error + int" where
  "integer_of_text s =
     (let t = dropWhile is_space s;
          neg = (t \<noteq> [] \<and> hd t = CHR ''-'');
          u = (if t \<noteq> [] \<and> (hd t = CHR ''-'' \<or> hd t = CHR ''+'') then tl t else t);
          ds = takeWhile is_digit u;
          rest = dropWhile is_space (dropWhile is_digit u);
          v = (if neg then - decimal ds else decimal ds)
      in if ds = [] \<or> rest \<noteq> [] then Inl InvalidTextRepresentation
         else if \<not> in_integer v then Inl NumericValueOutOfRange
         else Inr v)"

subsection \<open>Statements on the users table\<close>

text \<open>\<^verbatim>\<open>SELECT * FROM users WHERE email = $1\<close>; an absent parameter is sent as NULL and
  matches no row.\<close>

definition select_users_by_email :: "string option \<Rightarrow> user list statement" where
  "select_users_by_email e d =
     (case users (tabs d) of
        None \<Rightarrow> (d, Inl UndefinedTable)
      | Some rows \<Rightarrow> (d, Inr (filter (\<lambda>u. Some (u_email u) = e) rows)))"

text \<open>\<^verbatim>\<open>SELECT COUNT(*) FROM users\<close>\<close>

definition count_users :: "nat statement" where
  "count_users d =
     (case users (tabs d) of
        None \<Rightarrow> (d, Inl UndefinedTable)
      | Some rows \<Rightarrow> (d, Inr (length rows)))"

text \<open>\<^verbatim>\<open>INSERT INTO users (full_name, email, password, role, status) VALUES (...)\<close>:
  the id comes from the sequence, \<^verbatim>\<open>created_at\<close> from the clock, \<^verbatim>\<open>bio\<close> and
  \<^verbatim>\<open>last_login\<close> stay NULL. The lengths of the five strings, the primary key and the
  \<^verbatim>\<open>UNIQUE\<close> email are checked.\<close>

definition insert_user ::
  "nat \<Rightarrow> string \<Rightarrow> string \<Rightarrow> string \<Rightarrow> string \<Rightarrow> string \<Rightarrow> user statement" where
  "insert_user now fn em pw rl st d =
     (case users (tabs d) of
        None \<Rightarrow> (d, Inl UndefinedTable)
      | Some rows \<Rightarrow>
          let i = users_id_seq (seqs d);
              d1 = d\<lparr>seqs := (seqs d)\<lparr>users_id_seq := i + 1\<rparr>\<rparr>
          in if varchar 100 fn = None \<or> varchar 100 em = None \<or> varchar 255 pw = None
                \<or> varchar 20 rl = None \<or> varchar 20 st = None
             then (d1, Inl StringDataRightTruncation)
             else if \<not> in_integer i then (d1, Inl NumericValueOutOfRange)
             else
               let row = \<lparr>u_id = i, u_full_name = the (varchar 100 fn),
                          u_email = the (varchar 100 em), u_password = the (varchar 255 pw),
                          u_role = varchar 20 rl, u_status = varchar 20 st, u_bio = None,
                          u_created_at = now, u_last_login = None\<rparr>
               in if i \<in> set (map u_id rows) \<or> u_email row \<in> set (map u_email rows)
                  then (d1, Inl UniqueViolation)
                  else (d1\<lparr>tabs := (tabs d1)\<lparr>users := Some (rows @ [row])\<rparr>\<rparr>, Inr row))"

text \<open>\<^verbatim>\<open>UPDATE users SET last_login = CURRENT_TIMESTAMP WHERE id = $1\<close>\<close>

definition update_last_login :: "nat \<Rightarrow> int \<Rightarrow> unit statement" where
  "update_last_login now i d =
     (case users (tabs d) of
        None \<Rightarrow> (d, Inl UndefinedTable)
      | Some rows \<Rightarrow>
          (d\<lparr>tabs := (tabs d)\<lparr>users :=
                Some (map (\<lambda>u. if u_id u = i then u\<lparr>u_last_login := Some now\<rparr> else u) rows)\<rparr>\<rparr>,
           Inr ()))"

text \<open>\<^verbatim>\<open>UPDATE users SET status = $1 WHERE id = $2 RETURNING ...\<close>: the id arrives as
  text and is read as an \<^verbatim>\<open>INTEGER\<close>; the result is the list of updated rows.\<close>

definition update_user_status :: "string \<Rightarrow> string \<Rightarrow> user list statement" where
  "update_user_status st id_text d =
     (case users (tabs d) of
        None \<Rightarrow> (d, Inl UndefinedTable)
      | Some rows \<Rightarrow>
          (case integer_of_text id_text of
             Inl e \<Rightarrow> (d, Inl e)
           | Inr i \<Rightarrow>
               (case varchar 20 st of
                  None \<Rightarrow> (d, Inl StringDataRightTruncation)
                | Some st' \<Rightarrow>
                    let rows' = map (\<lambda>u. if u_id u = i then u\<lparr>u_status := Some st'\<rparr> else u)
                                  rows
                    in (d\<lparr>tabs := (tabs d)\<lparr>users := Some rows'\<rparr>\<rparr>,
                        Inr (filter (\<lambda>u. u_id u = i) rows')))))"

section \<open>Responses\<close>

record user_view =
  uv_id :: int
  uv_full_name :: string
  uv_email :: string
  uv_role :: "string option"
  uv_status :: "string option"

definition view_of :: "user \<Rightarrow> user_view" where
  "view_of u = \<lparr>uv_id = u_id u, uv_full_name = u_full_name u, uv_email = u_email u,
               uv_role = u_role u, uv_status = u_status u\<rparr>"

text \<open>The claims of a bearer token: what \<^verbatim>\<open>jwt.sign\<close> is given at login and what the
  authentication middleware attaches to a request as \<^verbatim>\<open>req.user\<close>.\<close>

record payload =
  pl_id :: int
  pl_email :: string
  pl_role :: "string option"
  pl_name :: string

record token =
  tk_claims :: payload
  tk_key :: string
  tk_iat :: nat
  tk_exp :: nat

datatype body =
    ErrorOnly string
  | Failure string
  | Thrown string error
  | Registered string user_view nat bool
  | LoggedIn string token user_view
  | Approved string user_view
  | ProductStored product
  | SaleStored sale

type_synonym response = "nat \<times> body"

section \<open>Registration\<close>

text \<open>JavaScript truthiness of an optional string: undefined, null and the empty string
  are falsy.\<close>

definition truthy_str :: "string option \<Rightarrow> bool" where
  "truthy_str s = (case s of None \<Rightarrow> False | Some t \<Rightarrow> t \<noteq> [])"

record register_body =
  rb_full_name :: "string option"
  rb_email :: "string option"
  rb_password :: "string option"

text \<open>\<^verbatim>\<open>POST /api/register\<close>. The password hash \<^verbatim>\<open>bcrypt.hash(password, 10)\<close> is the
  parameter \<open>hash\<close>. Each \<^verbatim>\<open>pool.query\<close> is one statement committed on its own.\<close>

definition register ::
  "(string \<Rightarrow> string) \<Rightarrow> nat \<Rightarrow> register_body \<Rightarrow> database \<Rightarrow> response \<times> database" where
  "register hash now b d =
     (if \<not> truthy_str (rb_full_name b) \<or> \<not> truthy_str (rb_email b)
          \<or> \<not> truthy_str (rb_password b)
      then ((400, ErrorOnly ''All fields are required''), d)
      else
        (case select_users_by_email (rb_email b) d of
           (d1, Inl e) \<Rightarrow> ((500, Thrown ''Registration failed: '' e), d1)
         | (d1, Inr userExists) \<Rightarrow>
             if length userExists > 0
             then ((400, ErrorOnly ''User already exists''), d1)
             else
               let hashedPassword = hash (the (rb_password b)) in
               (case count_users d1 of
                  (d2, Inl e) \<Rightarrow> ((500, Thrown ''Registration failed: '' e), d2)
                | (d2, Inr userCount) \<Rightarrow>
                    let isFirstUser = (userCount = 0);
                        role = (if isFirstUser then ''superadmin'' else ''cashier'');
                        status = (if isFirstUser then ''active'' else ''pending'')
                    in
                    (case insert_user now (the (rb_full_name b)) (the (rb_email b))
                            hashedPassword role status d2 of
                       (d3, Inl e) \<Rightarrow> ((500, Thrown ''Registration failed: '' e), d3)
                     | (d3, Inr newUser) \<Rightarrow>
                         ((200, Registered
                                  (if isFirstUser then ''Super Admin created successfully!''
                                   else ''Registration successful! Please wait for admin approval.'')
                                  (view_of newUser) (u_created_at newUser) (\<not> isFirstUser)),
                          d3)))))"

section \<open>Login\<close>

record login_body =
  lb_email :: "string option"
  lb_password :: "string option"

text \<open>\<^verbatim>\<open>bcrypt.compare(password, hash)\<close>: the comparison itself is the parameter \<open>cmp\<close>;
  the library throws when the password is not a string.\<close>

definition bcrypt_compare ::
  "(string \<Rightarrow> string \<Rightarrow> bool) \<Rightarrow> string option \<Rightarrow> string \<Rightarrow> error + bool" where
  "bcrypt_compare cmp s h = (case s of None \<Rightarrow> Inl IllegalArguments | Some p \<Rightarrow> Inr (cmp p h))"

text \<open>\<^verbatim>\<open>jwt.sign(payload, process.env.JWT_SECRET, { expiresIn: '24h' })\<close>: a token records
  its claims, the key it was signed with, and the issue and expiry times in seconds. The
  library throws when no secret is configured.\<close>

definition jwt_sign :: "payload \<Rightarrow> string option \<Rightarrow> nat \<Rightarrow> error + token" where
  "jwt_sign pl secret now =
     (if \<not> truthy_str secret then Inl SecretMissing
      else Inr \<lparr>tk_claims = pl, tk_key = the secret, tk_iat = now,
                tk_exp = now + 24 * 60 * 60\<rparr>)"

text \<open>\<^verbatim>\<open>POST /api/login\<close>\<close>

definition login ::
  "(string \<Rightarrow> string \<Rightarrow> bool) \<Rightarrow> string option \<Rightarrow> nat \<Rightarrow> login_body \<Rightarrow> database
     \<Rightarrow> response \<times> database" where
  "login cmp secret now b d =
     (case select_users_by_email (lb_email b) d of
        (d1, Inl e) \<Rightarrow> ((500, Thrown ''Login failed: '' e), d1)
      | (d1, Inr userResult) \<Rightarrow>
          (case userResult of
             [] \<Rightarrow> ((400, Failure ''Invalid email or password''), d1)
           | user # _ \<Rightarrow>
               (case bcrypt_compare cmp (lb_password b) (u_password user) of
                  Inl e \<Rightarrow> ((500, Thrown ''Login failed: '' e), d1)
                | Inr validPassword \<Rightarrow>
                    if \<not> validPassword
                    then ((400, Failure ''Invalid email or password''), d1)
                    else if u_status user \<noteq> Some ''active''
                    then ((400, Failure
                            ''Account is pending approval. Please contact administrator.''), d1)
                    else
                      (case update_last_login now (u_id user) d1 of
                         (d2, Inl e) \<Rightarrow> ((500, Thrown ''Login failed: '' e), d2)
                       | (d2, Inr _) \<Rightarrow>
                           (case jwt_sign \<lparr>pl_id = u_id user, pl_email = u_email user,
                                            pl_role = u_role user, pl_name = u_full_name user\<rparr>
                                   secret now of
                              Inl e \<Rightarrow> ((500, Thrown ''Login failed: '' e), d2)
                            | Inr tok \<Rightarrow>
                                ((200, LoggedIn ''Login successful'' tok (view_of user)),
                                 d2))))))"

section \<open>Approval of pending accounts\<close>

text \<open>\<^verbatim>\<open>['superadmin', 'admin'].includes(req.user.role)\<close>\<close>

definition admin_only :: "payload \<Rightarrow> bool" where
  "admin_only req_user =
     (case pl_role req_user of None \<Rightarrow> False
      | Some r \<Rightarrow> r \<in> set [''superadmin'', ''admin''])"

text \<open>\<^verbatim>\<open>PUT /api/users/:id/approve\<close>, after the authentication middleware has attached
  the token's claims as \<open>req_user\<close>. The path parameter \<open>i\<close> is the text of the path
  segment, handed to the statement as it is.\<close>

definition approve :: "payload \<Rightarrow> string \<Rightarrow> database \<Rightarrow> response \<times> database" where
  "approve req_user i d =
     (if \<not> admin_only req_user
      then ((403, ErrorOnly ''Access denied. Admin only.''), d)
      else
        (case update_user_status ''active'' i d of
           (d1, Inl e) \<Rightarrow> ((500, Thrown [] e), d1)
         | (d1, Inr rows) \<Rightarrow>
             (case rows of
                [] \<Rightarrow> ((404, Failure ''User not found''), d1)
              | r # _ \<Rightarrow> ((200, Approved ''User approved successfully'' (view_of r)), d1))))"

section \<open>The real-time channel\<close>

text \<open>The socket.io server: the ids of the connected sockets, and \<^verbatim>\<open>activeUsers\<close>, the
  identity each socket announced with \<^verbatim>\<open>authenticate\<close>. An emission is the list of
  (socket, event) deliveries it makes.\<close>

record userData =
  ud_id :: int
  ud_full_name :: string

record io_state =
  connected :: "string list"
  activeUsers :: "string \<rightharpoonup> userData"

record line_item =
  li_product_id :: "int option"
  li_quantity :: int
  li_unit_price :: int

datatype event =
    User_online int string nat
  | Product_created product string
  | Sale_created sale "line_item list" string
  | Sale_created_relay string "string option" nat

text \<open>\<^verbatim>\<open>io.emit\<close> reaches every connected socket; \<^verbatim>\<open>socket.broadcast.emit\<close> reaches
  every connected socket except \<open>sock\<close>.\<close>

definition io_emit :: "io_state \<Rightarrow> event \<Rightarrow> (string \<times> event) list" where
  "io_emit io ev = map (\<lambda>s. (s, ev)) (connected io)"

definition socket_broadcast_emit :: "io_state \<Rightarrow> string \<Rightarrow> event \<Rightarrow> (string \<times> event) list" where
  "socket_broadcast_emit io sock ev =
     map (\<lambda>s. (s, ev)) (filter (\<lambda>s. s \<noteq> sock) (connected io))"

text \<open>\<^verbatim>\<open>socket.on('authenticate', ...)\<close>\<close>

definition on_authenticate ::
  "io_state \<Rightarrow> string \<Rightarrow> userData \<Rightarrow> nat \<Rightarrow> io_state \<times> (string \<times> event) list" where
  "on_authenticate io sock ud now =
     (io\<lparr>activeUsers := (activeUsers io)(sock \<mapsto> ud)\<rparr>,
      socket_broadcast_emit io sock (User_online (ud_id ud) (ud_full_name ud) now))"

text \<open>\<^verbatim>\<open>socket.on('sale_created', ...)\<close>: the relay of an event pushed by a client.\<close>

definition on_sale_created ::
  "io_state \<Rightarrow> string \<Rightarrow> string \<Rightarrow> nat \<Rightarrow> (string \<times> event) list" where
  "on_sale_created io sock data now =
     socket_broadcast_emit io sock
       (Sale_created_relay data (map_option ud_full_name (activeUsers io sock)) now)"

section \<open>Products\<close>

record product_body =
  pb_name :: "string option"
  pb_category :: "string option"
  pb_purchase_price :: "int option"
  pb_selling_price :: "int option"
  pb_stock :: "int option"

text \<open>JavaScript truthiness of an optional number: undefined, null and 0 are falsy.\<close>

definition truthy_num :: "int option \<Rightarrow> bool" where
  "truthy_num n = (case n of None \<Rightarrow> False | Some v \<Rightarrow> v \<noteq> 0)"

text \<open>\<^verbatim>\<open>stock || 0\<close>\<close>

definition or_zero :: "int option \<Rightarrow> int" where
  "or_zero n = (if truthy_num n then the n else 0)"

text \<open>\<^verbatim>\<open>INSERT INTO products (name, category, purchase_price, selling_price, stock)\<close>:
  name is a \<^verbatim>\<open>VARCHAR(100)\<close>, category a \<^verbatim>\<open>VARCHAR(50)\<close>, the prices are
  \<^verbatim>\<open>DECIMAL(10,2)\<close> and stock is an \<^verbatim>\<open>INTEGER\<close>.\<close>

definition insert_product :: "nat \<Rightarrow> string \<Rightarrow> string \<Rightarrow> int \<Rightarrow> int \<Rightarrow> int \<Rightarrow> product statement" where
  "insert_product now nm cat pp sp st d =
     (case products (tabs d) of
        None \<Rightarrow> (d, Inl UndefinedTable)
      | Some rows \<Rightarrow>
          let i = products_id_seq (seqs d);
              d1 = d\<lparr>seqs := (seqs d)\<lparr>products_id_seq := i + 1\<rparr>\<rparr>
          in if varchar 100 nm = None \<or> varchar 50 cat = None
             then (d1, Inl StringDataRightTruncation)
             else if \<not> in_decimal pp \<or> \<not> in_decimal sp \<or> \<not> in_integer st \<or> \<not> in_integer i
             then (d1, Inl NumericValueOutOfRange)
             else
               let row = \<lparr>p_id = i, p_name = the (varchar 100 nm),
                          p_category = the (varchar 50 cat), p_purchase_price = pp,
                          p_selling_price = sp, p_stock = st, p_created_at = now,
                          p_updated_at = now\<rparr>
               in if i \<in> set (map p_id rows)
                  then (d1, Inl UniqueViolation)
                  else (d1\<lparr>tabs := (tabs d1)\<lparr>products := Some (rows @ [row])\<rparr>\<rparr>, Inr row))"

text \<open>\<^verbatim>\<open>POST /api/products\<close>\<close>

definition createProduct ::
  "nat \<Rightarrow> io_state \<Rightarrow> payload \<Rightarrow> product_body \<Rightarrow> database
     \<Rightarrow> response \<times> database \<times> (string \<times> event) list" where
  "createProduct now io req_user b d =
     (if \<not> truthy_str (pb_name b) \<or> \<not> truthy_str (pb_category b)
          \<or> \<not> truthy_num (pb_purchase_price b) \<or> \<not> truthy_num (pb_selling_price b)
      then ((400, Failure
               ''Name, category, purchase price, and selling price are required''), d, [])
      else
        (case insert_product now (the (pb_name b)) (the (pb_category b))
                (the (pb_purchase_price b)) (the (pb_selling_price b))
                (or_zero (pb_stock b)) d of
           (d1, Inl e) \<Rightarrow> ((500, Thrown [] e), d1, [])
         | (d1, Inr row) \<Rightarrow>
             ((200, ProductStored row), d1,
              io_emit io (Product_created row (pl_name req_user)))))"

section \<open>Sales\<close>

subsection \<open>The pool, a checked-out client and its transaction\<close>

text \<open>
  The pool keeps the connection to the database; requests are served one at a time, so
  one connection is all it needs. A connection is a session: outside a transaction every
  statement is committed on its own; \<^verbatim>\<open>BEGIN\<close> opens a transaction, whose statements work
  on a private copy of the tables; a statement that fails inside a transaction makes the
  transaction a failed one, which refuses every statement but \<^verbatim>\<open>COMMIT\<close> and
  \<^verbatim>\<open>ROLLBACK\<close>; \<^verbatim>\<open>COMMIT\<close> makes the copy the persisted tables (and only ends a failed
  transaction); \<^verbatim>\<open>ROLLBACK\<close> drops the copy.

  \<^verbatim>\<open>pool.connect()\<close> hands the connection out as a client, in the state it was released
  in, and \<^verbatim>\<open>client.release()\<close> returns it as it is, an open transaction included. Both
  \<^verbatim>\<open>pool.connect()\<close> and every \<^verbatim>\<open>client.query\<close>, \<^verbatim>\<open>ROLLBACK\<close> among them, can fail for a
  reason that is not in the data (the database cannot be reached, a time-out, a deadlock):
  \<open>connect_fails\<close> says whether the connection is refused, \<open>query_fails k\<close> whether the
  statement sent as number \<open>k\<close> on the client fails; \<open>cl_issued\<close> counts the statements
  sent. The other handlers use \<^verbatim>\<open>pool.query\<close> and are modelled on a database whose
  connection has no transaction open.
\<close>

datatype tx_state = NoTransaction | InTransaction tables | FailedTransaction

record pool =
  po_db :: database
  po_tx :: tx_state

record faults =
  connect_fails :: bool
  query_fails :: "nat \<Rightarrow> bool"

record client =
  cl_db :: database
  cl_tx :: tx_state
  cl_issued :: nat

definition idle_pool :: "database \<Rightarrow> pool" where
  "idle_pool d = \<lparr>po_db = d, po_tx = NoTransaction\<rparr>"

definition pool_connect :: "faults \<Rightarrow> pool \<Rightarrow> error + client" where
  "pool_connect flt p =
     (if connect_fails flt then Inl ConnectionFailure
      else Inr \<lparr>cl_db = po_db p, cl_tx = po_tx p, cl_issued = 0\<rparr>)"

definition client_release :: "client \<Rightarrow> pool" where
  "client_release c = \<lparr>po_db = cl_db c, po_tx = cl_tx c\<rparr>"

text \<open>What an error leaves of the transaction.\<close>

definition after_error :: "tx_state \<Rightarrow> tx_state" where
  "after_error t = (case t of NoTransaction \<Rightarrow> NoTransaction | _ \<Rightarrow> FailedTransaction)"

definition client_begin :: "faults \<Rightarrow> client \<Rightarrow> client \<times> (error + unit)" where
  "client_begin flt c =
     (let c' = c\<lparr>cl_issued := Suc (cl_issued c)\<rparr> in
      if query_fails flt (cl_issued c)
      then (c'\<lparr>cl_tx := after_error (cl_tx c)\<rparr>, Inl QueryFault)
      else (case cl_tx c of
              NoTransaction \<Rightarrow> (c'\<lparr>cl_tx := InTransaction (tabs (cl_db c))\<rparr>, Inr ())
            | InTransaction w \<Rightarrow> (c', Inr ())
            | FailedTransaction \<Rightarrow> (c', Inl InFailedSqlTransaction)))"

definition client_commit :: "faults \<Rightarrow> client \<Rightarrow> client \<times> (error + unit)" where
  "client_commit flt c =
     (let c' = c\<lparr>cl_issued := Suc (cl_issued c)\<rparr> in
      if query_fails flt (cl_issued c)
      then (c'\<lparr>cl_tx := after_error (cl_tx c)\<rparr>, Inl QueryFault)
      else (case cl_tx c of
              NoTransaction \<Rightarrow> (c', Inr ())
            | InTransaction w \<Rightarrow>
                (c'\<lparr>cl_db := (cl_db c)\<lparr>tabs := w\<rparr>, cl_tx := NoTransaction\<rparr>, Inr ())
            | FailedTransaction \<Rightarrow> (c'\<lparr>cl_tx := NoTransaction\<rparr>, Inr ())))"

definition client_rollback :: "faults \<Rightarrow> client \<Rightarrow> client \<times> (error + unit)" where
  "client_rollback flt c =
     (let c' = c\<lparr>cl_issued := Suc (cl_issued c)\<rparr> in
      if query_fails flt (cl_issued c) then (c', Inl QueryFault)
      else (c'\<lparr>cl_tx := NoTransaction\<rparr>, Inr ()))"

definition client_query :: "faults \<Rightarrow> client \<Rightarrow> 'r statement \<Rightarrow> client \<times> (error + 'r)" where
  "client_query flt c stmt =
     (let c' = c\<lparr>cl_issued := Suc (cl_issued c)\<rparr> in
      if query_fails flt (cl_issued c)
      then (c'\<lparr>cl_tx := after_error (cl_tx c)\<rparr>, Inl QueryFault)
      else (case cl_tx c of
              NoTransaction \<Rightarrow> (case stmt (cl_db c) of (d', r) \<Rightarrow> (c'\<lparr>cl_db := d'\<rparr>, r))
            | InTransaction w \<Rightarrow>
                (case stmt \<lparr>tabs = w, seqs = seqs (cl_db c)\<rparr> of
                   (d', Inl e) \<Rightarrow>
                     (c'\<lparr>cl_db := (cl_db c)\<lparr>seqs := seqs d'\<rparr>, cl_tx := FailedTransaction\<rparr>,
                      Inl e)
                 | (d', Inr v) \<Rightarrow>
                     (c'\<lparr>cl_db := (cl_db c)\<lparr>seqs := seqs d'\<rparr>,
                         cl_tx := InTransaction (tabs d')\<rparr>, Inr v))
            | FailedTransaction \<Rightarrow> (c', Inl InFailedSqlTransaction)))"

subsection \<open>Statements of the sale\<close>

text \<open>\<^verbatim>\<open>INSERT INTO sales (date, customer, total, user_id) VALUES (CURRENT_DATE, $1, $2, $3)
  RETURNING *\<close>: \<^verbatim>\<open>customer\<close> is a \<^verbatim>\<open>VARCHAR(100) NOT NULL\<close>, \<^verbatim>\<open>total\<close> a
  \<^verbatim>\<open>DECIMAL(10,2)\<close>, \<^verbatim>\<open>user_id\<close> an \<^verbatim>\<open>INTEGER\<close> that references \<^verbatim>\<open>users(id)\<close>.\<close>

definition insert_sale :: "nat \<Rightarrow> string option \<Rightarrow> int \<Rightarrow> int \<Rightarrow> sale statement" where
  "insert_sale now cust tot uid d =
     (case sales (tabs d) of
        None \<Rightarrow> (d, Inl UndefinedTable)
      | Some rows \<Rightarrow>
          let i = sales_id_seq (seqs d);
              d1 = d\<lparr>seqs := (seqs d)\<lparr>sales_id_seq := i + 1\<rparr>\<rparr>
          in (case cust of
                None \<Rightarrow> (d1, Inl NotNullViolation)
              | Some cu \<Rightarrow>
                  if varchar 100 cu = None then (d1, Inl StringDataRightTruncation)
                  else if \<not> in_decimal tot \<or> \<not> in_integer uid \<or> \<not> in_integer i
                  then (d1, Inl NumericValueOutOfRange)
                  else
                    let row = \<lparr>s_id = i, s_date = CURRENT_DATE now,
                               s_customer = the (varchar 100 cu), s_total = tot,
                               s_user_id = Some uid, s_created_at = now\<rparr>
                    in if i \<in> set (map s_id rows) then (d1, Inl UniqueViolation)
                       else if \<not> has_key u_id (users (tabs d)) uid
                       then (d1, Inl ForeignKeyViolation)
                       else (d1\<lparr>tabs := (tabs d1)\<lparr>sales := Some (rows @ [row])\<rparr>\<rparr>,
                             Inr row)))"

text \<open>\<^verbatim>\<open>INSERT INTO sale_items (sale_id, product_id, quantity, unit_price, total_price)\<close>:
  \<^verbatim>\<open>quantity\<close> is an \<^verbatim>\<open>INTEGER\<close>, the prices are \<^verbatim>\<open>DECIMAL(10,2)\<close>, \<^verbatim>\<open>sale_id\<close>
  references \<^verbatim>\<open>sales(id)\<close> and \<^verbatim>\<open>product_id\<close> references \<^verbatim>\<open>products(id)\<close>; a NULL
  reference is accepted.\<close>

definition insert_sale_item :: "int \<Rightarrow> int option \<Rightarrow> int \<Rightarrow> int \<Rightarrow> int \<Rightarrow> sale_item statement" where
  "insert_sale_item sid pid q up tp d =
     (case sale_items (tabs d) of
        None \<Rightarrow> (d, Inl UndefinedTable)
      | Some rows \<Rightarrow>
          let i = sale_items_id_seq (seqs d);
              d1 = d\<lparr>seqs := (seqs d)\<lparr>sale_items_id_seq := i + 1\<rparr>\<rparr>;
              row = \<lparr>si_id = i, si_sale_id = Some sid, si_product_id = pid,
                     si_quantity = q, si_unit_price = up, si_total_price = tp\<rparr>
          in if \<not> in_integer q \<or> \<not> in_decimal up \<or> \<not> in_decimal tp \<or> \<not> in_integer sid
                \<or> \<not> in_integer i \<or> (case pid of None \<Rightarrow> False | Some p \<Rightarrow> \<not> in_integer p)
             then (d1, Inl NumericValueOutOfRange)
             else if i \<in> set (map si_id rows) then (d1, Inl UniqueViolation)
             else if \<not> has_key s_id (sales (tabs d)) sid then (d1, Inl ForeignKeyViolation)
             else if (case pid of None \<Rightarrow> False
                      | Some p \<Rightarrow> \<not> has_key p_id (products (tabs d)) p)
             then (d1, Inl ForeignKeyViolation)
             else (d1\<lparr>tabs := (tabs d1)\<lparr>sale_items := Some (rows @ [row])\<rparr>\<rparr>, Inr row))"

text \<open>\<^verbatim>\<open>UPDATE products SET stock = stock - $1 WHERE id = $2\<close>: both parameters are
  \<^verbatim>\<open>INTEGER\<close>s, and so is every new stock. With a NULL id, or an id that no product has,
  no row is updated and the statement succeeds.\<close>

definition update_stock :: "int \<Rightarrow> int option \<Rightarrow> unit statement" where
  "update_stock q pid d =
     (case products (tabs d) of
        None \<Rightarrow> (d, Inl UndefinedTable)
      | Some rows \<Rightarrow>
          if \<not> in_integer q \<or> (case pid of None \<Rightarrow> False | Some p \<Rightarrow> \<not> in_integer p)
             \<or> (\<exists>p\<in>set rows. Some (p_id p) = pid \<and> \<not> in_integer (p_stock p - q))
          then (d, Inl NumericValueOutOfRange)
          else
            (d\<lparr>tabs := (tabs d)\<lparr>products :=
                  Some (map (\<lambda>p. if Some (p_id p) = pid then p\<lparr>p_stock := p_stock p - q\<rparr> else p)
                          rows)\<rparr>\<rparr>,
             Inr ()))"

subsection \<open>The handler\<close>

record sale_body =
  sb_customer :: "string option"
  sb_items :: "line_item list option"
  sb_total :: "int option"

text \<open>\<^verbatim>\<open>items.reduce((sum, item) => sum + (item.quantity * item.unit_price), 0)\<close>\<close>

definition items_total :: "line_item list \<Rightarrow> int" where
  "items_total items = foldl (\<lambda>sum item. sum + li_quantity item * li_unit_price item) 0 items"

text \<open>The \<^verbatim>\<open>for (const item of items)\<close> loop: for each item the sale item is inserted
  and then the stock of its product is decremented; the first statement that throws ends
  the loop.\<close>

fun sale_loop :: "faults \<Rightarrow> int \<Rightarrow> line_item list \<Rightarrow> client \<Rightarrow> client \<times> (error + unit)" where
  "sale_loop flt sid [] c = (c, Inr ())"
| "sale_loop flt sid (item # rest) c =
     (case client_query flt c
             (insert_sale_item sid (li_product_id item) (li_quantity item) (li_unit_price item)
                (li_quantity item * li_unit_price item)) of
        (c1, Inl e) \<Rightarrow> (c1, Inl e)
      | (c1, Inr _) \<Rightarrow>
          (case client_query flt c1 (update_stock (li_quantity item) (li_product_id item)) of
             (c2, Inl e) \<Rightarrow> (c2, Inl e)
           | (c2, Inr _) \<Rightarrow> sale_loop flt sid rest c2))"

text \<open>The body of the \<^verbatim>\<open>try\<close> block. A request body without an \<^verbatim>\<open>items\<close> array makes
  \<^verbatim>\<open>items.reduce\<close> throw a \<open>TypeError\<close>. The field \<open>sb_total\<close>, a total sent by the
  caller, is never read.\<close>

definition sale_try ::
  "faults \<Rightarrow> nat \<Rightarrow> payload \<Rightarrow> sale_body \<Rightarrow> client
     \<Rightarrow> client \<times> (error + sale \<times> line_item list)" where
  "sale_try flt now req_user b c =
     (case client_begin flt c of
        (c1, Inl e) \<Rightarrow> (c1, Inl e)
      | (c1, Inr _) \<Rightarrow>
          (case sb_items b of
             None \<Rightarrow> (c1, Inl TypeError)
           | Some items \<Rightarrow>
               let total = items_total items in
               (case client_query flt c1
                       (insert_sale now (sb_customer b) total (pl_id req_user)) of
                  (c2, Inl e) \<Rightarrow> (c2, Inl e)
                | (c2, Inr sale) \<Rightarrow>
                    (case sale_loop flt (s_id sale) items c2 of
                       (c3, Inl e) \<Rightarrow> (c3, Inl e)
                     | (c3, Inr _) \<Rightarrow>
                         (case client_commit flt c3 of
                            (c4, Inl e) \<Rightarrow> (c4, Inl e)
                          | (c4, Inr _) \<Rightarrow> (c4, Inr (sale, items)))))))"

text \<open>\<^verbatim>\<open>POST /api/sales\<close>. The client is awaited before the \<^verbatim>\<open>try\<close> block: when the
  pool refuses it the handler throws and sends nothing. After the \<^verbatim>\<open>try\<close> block comes
  either the broadcast and the response, or the \<^verbatim>\<open>catch\<close> block, which awaits
  \<^verbatim>\<open>ROLLBACK\<close> and then answers 500: when \<^verbatim>\<open>ROLLBACK\<close> throws, the handler throws and
  sends nothing. \<^verbatim>\<open>finally\<close> releases the client in every case. The result is the
  response, if one is sent, the pool, and the deliveries on the real-time channel.\<close>

definition createSale ::
  "faults \<Rightarrow> nat \<Rightarrow> io_state \<Rightarrow> payload \<Rightarrow> sale_body \<Rightarrow> pool
     \<Rightarrow> response option \<times> pool \<times> (string \<times> event) list" where
  "createSale flt now io req_user b p =
     (case pool_connect flt p of
        Inl e \<Rightarrow> (None, p, [])
      | Inr client \<Rightarrow>
          (case sale_try flt now req_user b client of
             (c, Inr (sale, items)) \<Rightarrow>
               (Some (200, SaleStored sale), client_release c,
                io_emit io (Sale_created sale items (pl_name req_user)))
           | (c, Inl e) \<Rightarrow>
               (case client_rollback flt c of
                  (c', Inl e') \<Rightarrow> (None, client_release c', [])
                | (c', Inr _) \<Rightarrow> (Some (500, Thrown [] e), client_release c', []))))"

section \<open>Initialisation of the database\<close>

text \<open>\<^verbatim>\<open>CREATE TABLE\<close> fails on a table that exists, and on a reference to a table that
  does not; a new \<^verbatim>\<open>SERIAL\<close> sequence starts at 1.\<close>

definition create_users :: "unit statement" where
  "create_users d =
     (case users (tabs d) of
        Some _ \<Rightarrow> (d, Inl DuplicateTable)
      | None \<Rightarrow> (d\<lparr>tabs := (tabs d)\<lparr>users := Some []\<rparr>,
                   seqs := (seqs d)\<lparr>users_id_seq := 1\<rparr>\<rparr>, Inr ()))"

definition create_products :: "unit statement" where
  "create_products d =
     (case products (tabs d) of
        Some _ \<Rightarrow> (d, Inl DuplicateTable)
      | None \<Rightarrow> (d\<lparr>tabs := (tabs d)\<lparr>products := Some []\<rparr>,
                   seqs := (seqs d)\<lparr>products_id_seq := 1\<rparr>\<rparr>, Inr ()))"

definition create_sales :: "unit statement" where
  "create_sales d =
     (case sales (tabs d) of
        Some _ \<Rightarrow> (d, Inl DuplicateTable)
      | None \<Rightarrow>
          if users (tabs d) = None then (d, Inl UndefinedTable)
          else (d\<lparr>tabs := (tabs d)\<lparr>sales := Some []\<rparr>,
                  seqs := (seqs d)\<lparr>sales_id_seq := 1\<rparr>\<rparr>, Inr ()))"

definition create_sale_items :: "unit statement" where
  "create_sale_items d =
     (case sale_items (tabs d) of
        Some _ \<Rightarrow> (d, Inl DuplicateTable)
      | None \<Rightarrow>
          if sales (tabs d) = None \<or> products (tabs d) = None then (d, Inl UndefinedTable)
          else (d\<lparr>tabs := (tabs d)\<lparr>sale_items := Some []\<rparr>,
                  seqs := (seqs d)\<lparr>sale_items_id_seq := 1\<rparr>\<rparr>, Inr ()))"

text \<open>\<^verbatim>\<open>UPDATE users SET status = 'active' WHERE status IS NULL\<close>\<close>

definition activate_null_status :: "unit statement" where
  "activate_null_status d =
     (case users (tabs d) of
        None \<Rightarrow> (d, Inl UndefinedTable)
      | Some rows \<Rightarrow>
          (d\<lparr>tabs := (tabs d)\<lparr>users :=
                Some (map (\<lambda>u. if u_status u = None then u\<lparr>u_status := Some ''active''\<rparr> else u)
                        rows)\<rparr>\<rparr>,
           Inr ()))"

text \<open>\<^verbatim>\<open>initializeDatabase\<close>: the catalogue is asked for the columns of a table named
  \<^verbatim>\<open>users\<close>. When there are none, the four tables are created and the default
  super-administrator is inserted; the first statement that throws ends the function,
  whose \<^verbatim>\<open>catch\<close> only logs. When the table exists, the status column is brought up to
  date. The result is the database and whether the function ran to its end.\<close>

definition initializeDatabase :: "(string \<Rightarrow> string) \<Rightarrow> nat \<Rightarrow> database \<Rightarrow> database \<times> (error + unit)" where
  "initializeDatabase hash now d =
     (if users (tabs d) = None
      then
        (case create_users d of
           (d1, Inl e) \<Rightarrow> (d1, Inl e)
         | (d1, Inr _) \<Rightarrow>
             (case create_products d1 of
                (d2, Inl e) \<Rightarrow> (d2, Inl e)
              | (d2, Inr _) \<Rightarrow>
                  (case create_sales d2 of
                     (d3, Inl e) \<Rightarrow> (d3, Inl e)
                   | (d3, Inr _) \<Rightarrow>
                       (case create_sale_items d3 of
                          (d4, Inl e) \<Rightarrow> (d4, Inl e)
                        | (d4, Inr _) \<Rightarrow>
                            let hashedPassword = hash ''admin123'' in
                            (case insert_user now ''Super Admin'' ''admin@disc.com''
                                    hashedPassword ''superadmin'' ''active'' d4 of
                               (d5, Inl e) \<Rightarrow> (d5, Inl e)
                             | (d5, Inr _) \<Rightarrow> (d5, Inr ()))))))
      else
        (case activate_null_status d of
           (d1, _) \<Rightarrow> (d1, Inr ())))"

section \<open>Notions used in the statements\<close>

text \<open>The total quantity that the lines of a request take of product \<open>pid\<close>.\<close>

definition quantity_sold :: "int \<Rightarrow> line_item list \<Rightarrow> int" where
  "quantity_sold pid items =
     sum_list (map li_quantity (filter (\<lambda>it. li_product_id it = Some pid) items))"

text \<open>A sale item row snapshots a line of the request for the sale \<open>sid\<close>.\<close>

definition snapshot_of :: "int \<Rightarrow> sale_item \<Rightarrow> line_item \<Rightarrow> bool" where
  "snapshot_of sid row it \<longleftrightarrow>
     si_sale_id row = Some sid \<and> si_product_id row = li_product_id it \<and>
     si_quantity row = li_quantity it \<and> si_unit_price row = li_unit_price it \<and>
     si_total_price row = li_quantity it * li_unit_price it"

text \<open>The stock of the product with id \<open>P\<close>, when there is one.\<close>

definition stock_of :: "database \<Rightarrow> int \<Rightarrow> int option" where
  "stock_of d P =
     (case products (tabs d) of None \<Rightarrow> None
      | Some ps \<Rightarrow> map_option p_stock (find (\<lambda>p. p_id p = P) ps))"

text \<open>The client that the pool hands out for a database whose connection has no
  transaction open.\<close>

definition connected_client :: "database \<Rightarrow> client" where
  "connected_client d = \<lparr>cl_db = d, cl_tx = NoTransaction, cl_issued = 0\<rparr>"

text \<open>The account that \<^verbatim>\<open>initializeDatabase\<close> inserts into a new users table.\<close>

definition default_admin :: "(string \<Rightarrow> string) \<Rightarrow> nat \<Rightarrow> user" where
  "default_admin hash now =
     \<lparr>u_id = 1, u_full_name = ''Super Admin'', u_email = ''admin@disc.com'',
      u_password = hash ''admin123'', u_role = Some ''superadmin'',
      u_status = Some ''active'', u_bio = None, u_created_at = now, u_last_login = None\<rparr>"

section \<open>Example data\<close>

text \<open>A shop with an active super-administrator, a cashier awaiting approval, two
  products and no sales; two connected sockets; and a few requests.\<close>

definition no_fault :: faults where
  "no_fault = \<lparr>connect_fails = False, query_fails = (\<lambda>k. False)\<rparr>"

definition ex_unreachable :: faults where
  "ex_unreachable = \<lparr>connect_fails = True, query_fails = (\<lambda>k. True)\<rparr>"

definition ex_lost :: faults where
  "ex_lost = \<lparr>connect_fails = False, query_fails = (\<lambda>k. 2 \<le> k)\<rparr>"

definition ex_hash :: "string \<Rightarrow> string" where
  "ex_hash p = ''#'' @ p"

definition ex_cmp :: "string \<Rightarrow> string \<Rightarrow> bool" where
  "ex_cmp p h = (h = ex_hash p)"

definition ex_alice_row :: user where
  "ex_alice_row = \<lparr>u_id = 1, u_full_name = ''Alice'', u_email = ''a@x.com'',
                    u_password = ''#pw'', u_role = Some ''superadmin'',
                    u_status = Some ''active'', u_bio = None, u_created_at = 7,
                    u_last_login = None\<rparr>"

definition ex_bob_row :: user where
  "ex_bob_row = \<lparr>u_id = 2, u_full_name = ''Bob'', u_email = ''b@x.com'',
                  u_password = ''#bobpw'', u_role = Some ''cashier'',
                  u_status = Some ''pending'', u_bio = None, u_created_at = 8,
                  u_last_login = None\<rparr>"

definition ex_cd_a :: product where
  "ex_cd_a = \<lparr>p_id = 1, p_name = ''CD-A'', p_category = ''music'',
               p_purchase_price = 500, p_selling_price = 1000,
               p_stock = 20, p_created_at = 8, p_updated_at = 8\<rparr>"

definition ex_cd_b :: product where
  "ex_cd_b = \<lparr>p_id = 2, p_name = ''CD-B'', p_category = ''music'',
               p_purchase_price = 600, p_selling_price = 1200,
               p_stock = 5, p_created_at = 9, p_updated_at = 9\<rparr>"

definition ex_shop :: database where
  "ex_shop =
     \<lparr>tabs = \<lparr>users = Some [ex_alice_row, ex_bob_row],
               products = Some [ex_cd_a, ex_cd_b],
               sales = Some [], sale_items = Some []\<rparr>,
      seqs = \<lparr>users_id_seq = 3, products_id_seq = 3, sales_id_seq = 1,
               sale_items_id_seq = 1\<rparr>\<rparr>"

definition ex_alice :: payload where
  "ex_alice = \<lparr>pl_id = 1, pl_email = ''a@x.com'', pl_role = Some ''superadmin'',
                pl_name = ''Alice''\<rparr>"

definition ex_io :: io_state where
  "ex_io = \<lparr>connected = [''s1'', ''s2''],
            activeUsers = [''s1'' \<mapsto> \<lparr>ud_id = 1, ud_full_name = ''Alice''\<rparr>,
                           ''s2'' \<mapsto> \<lparr>ud_id = 2, ud_full_name = ''Bob''\<rparr>]\<rparr>"

definition ex_line :: "int \<Rightarrow> int \<Rightarrow> int \<Rightarrow> line_item" where
  "ex_line p q up = \<lparr>li_product_id = Some p, li_quantity = q, li_unit_price = up\<rparr>"

definition ex_sale_body :: sale_body where
  "ex_sale_body = \<lparr>sb_customer = Some ''Carol'',
       sb_items = Some [ex_line 1 3 1000], sb_total = Some 1\<rparr>"

definition ex_bad_body :: sale_body where
  "ex_bad_body = \<lparr>sb_customer = Some ''Carol'',
       sb_items = Some [ex_line 1 3 1000, ex_line 99 1 500], sb_total = None\<rparr>"

definition ex_long_body :: sale_body where
  "ex_long_body = \<lparr>sb_customer = Some (replicate 101 CHR ''x''),
       sb_items = Some [ex_line 1 3 1000], sb_total = None\<rparr>"

definition ex_two_body :: sale_body where
  "ex_two_body = \<lparr>sb_customer = Some ''Dave'',
       sb_items = Some [ex_line 1 4 1000, ex_line 2 1 1200], sb_total = None\<rparr>"

definition ex_twice_body :: sale_body where
  "ex_twice_body = \<lparr>sb_customer = Some ''Carol'',
       sb_items = Some [ex_line 1 2 1000, ex_line 1 3 1000], sb_total = None\<rparr>"

definition ex_sale_row :: sale where
  "ex_sale_row = \<lparr>s_id = 1, s_date = 0, s_customer = ''Carol'', s_total = 3000,
                   s_user_id = Some 1, s_created_at = 100\<rparr>"

definition ex_empty :: database where
  "ex_empty = \<lparr>tabs = \<lparr>users = Some [], products = Some [], sales = Some [],
                        sale_items = Some []\<rparr>,
               seqs = \<lparr>users_id_seq = 1, products_id_seq = 1, sales_id_seq = 1,
                        sale_items_id_seq = 1\<rparr>\<rparr>"

definition ex_fresh :: database where
  "ex_fresh = \<lparr>tabs = \<lparr>users = None, products = None, sales = None, sale_items = None\<rparr>,
               seqs = \<lparr>users_id_seq = 0, products_id_seq = 0, sales_id_seq = 0,
                        sale_items_id_seq = 0\<rparr>\<rparr>"

definition ex_half :: database where
  "ex_half = \<lparr>tabs = \<lparr>users = None, products = Some [ex_cd_a], sales = None,
                       sale_items = None\<rparr>,
              seqs = \<lparr>users_id_seq = 0, products_id_seq = 2, sales_id_seq = 0,
                       sale_items_id_seq = 0\<rparr>\<rparr>"

definition ex_bob :: payload where
  "ex_bob = \<lparr>pl_id = 2, pl_email = ''b@x.com'', pl_role = Some ''cashier'', pl_name = ''Bob''\<rparr>"

definition ex_register_body :: "string \<Rightarrow> string \<Rightarrow> string \<Rightarrow> register_body" where
  "ex_register_body n e p = \<lparr>rb_full_name = Some n, rb_email = Some e, rb_password = Some p\<rparr>"

definition ex_login_body :: "string \<Rightarrow> string \<Rightarrow> login_body" where
  "ex_login_body e p = \<lparr>lb_email = Some e, lb_password = Some p\<rparr>"

definition ex_token :: token where
  "ex_token = \<lparr>tk_claims = ex_alice, tk_key = ''secret'', tk_iat = 200,
                tk_exp = 200 + 24 * 60 * 60\<rparr>"

definition ex_free_body :: product_body where
  "ex_free_body = \<lparr>pb_name = Some ''CD-C'', pb_category = Some ''music'',
                    pb_purchase_price = Some 0, pb_selling_price = Some 1000,
                    pb_stock = None\<rparr>"

definition ex_product_body :: product_body where
  "ex_product_body = \<lparr>pb_name = Some ''CD-C'', pb_category = Some ''music'',
                    pb_purchase_price = Some 500, pb_selling_price = Some 1000,
                    pb_stock = None\<rparr>"

lemmas ex_defs = no_fault_def ex_hash_def ex_cmp_def ex_alice_row_def ex_bob_row_def
  ex_cd_a_def ex_cd_b_def ex_shop_def ex_alice_def ex_io_def ex_line_def

lemmas column_defs = varchar_def in_integer_def in_decimal_def

lemmas users_defs = select_users_by_email_def truthy_str_def view_of_def Let_def

lemmas register_defs = register_def count_users_def insert_user_def

lemmas login_defs = login_def update_last_login_def bcrypt_compare_def jwt_sign_def

lemmas sale_defs = createSale_def sale_try_def idle_pool_def pool_connect_def connected_client_def
  client_begin_def client_commit_def client_rollback_def client_release_def client_query_def
  after_error_def insert_sale_def insert_sale_item_def update_stock_def items_total_def
  has_key_def CURRENT_DATE_def io_emit_def Let_def

section \<open>Facts about the column types\<close>

lemma varchar_fits [simp]: "length s \<le> n \<Longrightarrow> varchar n s = Some s"
  by (simp add: varchar_def)

lemma varchar_literals [simp]:
  "varchar 20 ''superadmin'' = Some ''superadmin''" "varchar 20 ''cashier'' = Some ''cashier''"
  "varchar 20 ''active'' = Some ''active''" "varchar 20 ''pending'' = Some ''pending''"
  by (simp_all add: varchar_def)

section \<open>Registration\<close>

lemma insert_user_ok:
  assumes "insert_user now fn em pw rl st d = (d', Inr row)"
  shows "\<exists>rows. users (tabs d) = Some rows \<and> users (tabs d') = Some (rows @ [row])"
    and "u_role row = varchar 20 rl" and "u_status row = varchar 20 st"
    and "u_created_at row = now"
  using assms
  by (auto simp: insert_user_def Let_def split: option.splits if_splits)

lemma register_succeeds:
  assumes "users (tabs d) = Some rows"
    and "truthy_str (rb_full_name b)" "truthy_str (rb_email b)" "truthy_str (rb_password b)"
    and "length (the (rb_full_name b)) \<le> 100" "length (the (rb_email b)) \<le> 100"
    and "length (hash (the (rb_password b))) \<le> 255"
    and "the (rb_email b) \<notin> u_email ` set rows" and "users_id_seq (seqs d) \<notin> u_id ` set rows"
    and "in_integer (users_id_seq (seqs d))"
  shows "\<exists>bd d'. register hash now b d = ((200, bd), d')"
proof -
  from assms(3) obtain e where e: "rb_email b = Some e"
    by (auto simp: truthy_str_def split: option.splits)
  with assms(8) have "filter (\<lambda>u. Some (u_email u) = rb_email b) rows = []"
    by (auto simp: filter_empty_conv)
  with assms e show ?thesis
    by (simp add: register_def select_users_by_email_def count_users_def insert_user_def
          Let_def)
qed

text \<open>
  Claim C4. When a registration is answered with 200, the account it has appended to the users
  table has role superadmin and status active if the table was empty before the call, and
  role cashier and status pending otherwise; the response carries that account, and its
  flag \<^verbatim>\<open>requiresApproval\<close> is true exactly when the table was not empty.
\<close>

theorem register_role_status:
  assumes "register hash now b d = ((200, bd), d')" and "users (tabs d) = Some rows"
  shows "\<exists>row. users (tabs d') = Some (rows @ [row])
       \<and> u_role row = Some (if rows = [] then ''superadmin'' else ''cashier'')
       \<and> u_status row = Some (if rows = [] then ''active'' else ''pending'')
       \<and> (\<exists>msg. bd = Registered msg (view_of row) now (rows \<noteq> []))"
proof -
  from assms have ok: "truthy_str (rb_full_name b)" "truthy_str (rb_email b)"
      "truthy_str (rb_password b)" "filter (\<lambda>u. Some (u_email u) = rb_email b) rows = []"
    by (auto simp: register_def select_users_by_email_def split: if_splits)
  let ?role = "if rows = [] then ''superadmin'' else ''cashier''"
  let ?status = "if rows = [] then ''active'' else ''pending''"
  obtain d3 r where ins: "insert_user now (the (rb_full_name b)) (the (rb_email b))
      (hash (the (rb_password b))) ?role ?status d = (d3, r)" by force
  from assms ok ins obtain row where r: "r = Inr row"
    by (cases r) (auto simp: register_def select_users_by_email_def count_users_def Let_def)
  from assms ok ins r have res: "d' = d3"
      "bd = Registered (if rows = [] then ''Super Admin created successfully!''
                        else ''Registration successful! Please wait for admin approval.'')
             (view_of row) (u_created_at row) (rows \<noteq> [])"
    by (auto simp: register_def select_users_by_email_def count_users_def Let_def)
  from insert_user_ok[OF ins[unfolded r]] assms(2) res show ?thesis
    by (cases "rows = []") auto
qed

theorem register_role_status_witness:
  "fst (register ex_hash 7 (ex_register_body ''Alice'' ''a@x.com'' ''pw'') ex_empty) =
     (200, Registered ''Super Admin created successfully!''
             \<lparr>uv_id = 1, uv_full_name = ''Alice'', uv_email = ''a@x.com'',
              uv_role = Some ''superadmin'', uv_status = Some ''active''\<rparr> 7 False)
   \<and> users (tabs ex_empty) = Some []
   \<and> fst (register ex_hash 9 (ex_register_body ''Eve'' ''e@x.com'' ''pw'') ex_shop) =
     (200, Registered ''Registration successful! Please wait for admin approval.''
             \<lparr>uv_id = 3, uv_full_name = ''Eve'', uv_email = ''e@x.com'',
              uv_role = Some ''cashier'', uv_status = Some ''pending''\<rparr> 9 True)
   \<and> users (tabs ex_shop) = Some [ex_alice_row, ex_bob_row]"
proof -
  let ?r1 = "register ex_hash 7 (ex_register_body ''Alice'' ''a@x.com'' ''pw'') ex_empty"
  let ?r2 = "register ex_hash 9 (ex_register_body ''Eve'' ''e@x.com'' ''pw'') ex_shop"
  have f1: "fst (fst ?r1) = 200" and f2: "fst (fst ?r2) = 200"
    by (simp_all add: ex_defs ex_empty_def ex_register_body_def users_defs register_defs
          column_defs)
  have run1: "?r1 = ((200, snd (fst ?r1)), snd ?r1)" using f1 by (metis prod.collapse)
  have run2: "?r2 = ((200, snd (fst ?r2)), snd ?r2)" using f2 by (metis prod.collapse)
  have u1: "users (tabs ex_empty) = Some []"
    and u2: "users (tabs ex_shop) = Some [ex_alice_row, ex_bob_row]"
    by (simp_all add: ex_defs ex_empty_def)
  from register_role_status[OF run1 u1] obtain row1 msg1 where
    a: "users (tabs (snd ?r1)) = Some [row1]" "u_role row1 = Some ''superadmin''"
       "u_status row1 = Some ''active''" "snd (fst ?r1) = Registered msg1 (view_of row1) 7 False"
    by auto
  from register_role_status[OF run2 u2] obtain row2 msg2 where
    b: "u_role row2 = Some ''cashier''"
       "u_status row2 = Some ''pending''" "snd (fst ?r2) = Registered msg2 (view_of row2) 9 True"
    by auto
  have "fst ?r1 = (200, Registered ''Super Admin created successfully!''
             \<lparr>uv_id = 1, uv_full_name = ''Alice'', uv_email = ''a@x.com'',
              uv_role = Some ''superadmin'', uv_status = Some ''active''\<rparr> 7 False)"
    by (simp add: ex_defs ex_empty_def ex_register_body_def users_defs register_defs
          column_defs)
  moreover have "fst ?r2 = (200, Registered ''Registration successful! Please wait for admin approval.''
             \<lparr>uv_id = 3, uv_full_name = ''Eve'', uv_email = ''e@x.com'',
              uv_role = Some ''cashier'', uv_status = Some ''pending''\<rparr> 9 True)"
    by (simp add: ex_defs ex_empty_def ex_register_body_def users_defs register_defs
          column_defs)
  ultimately show ?thesis using u1 u2 a b by simp
qed

section \<open>Login\<close>

lemma login_succeeds:
  assumes "users (tabs d) = Some rows"
    and "filter (\<lambda>u. Some (u_email u) = lb_email b) rows = user # rest"
    and "lb_password b = Some pw" "cmp pw (u_password user)"
    and "u_status user = Some ''active''" "truthy_str secret"
  shows "\<exists>tok d'. login cmp secret now b d =
           ((200, LoggedIn ''Login successful'' tok (view_of user)), d')"
  using assms
  by (simp add: login_def select_users_by_email_def bcrypt_compare_def update_last_login_def
        jwt_sign_def)

text \<open>
  Claim C5. Only a 200 response of login carries a token, and whenever one is issued the e-mail
  of the request is that of a stored user (the first row the query returns), the password
  of the request matches that user's stored hash, and the user's status is active: a
  pending or blocked account, or a wrong password, never obtains a token. The token embeds
  the user's id, e-mail, role and full name, it expires 24 hours after it is issued, and
  \<^verbatim>\<open>last_login\<close> of the user has been set to the time of the call.
\<close>

theorem login_token:
  assumes "login cmp secret now b d = ((code, LoggedIn msg tok prof), d')"
  shows "\<exists>rows user rest pw.
           users (tabs d) = Some rows \<and>
           filter (\<lambda>u. Some (u_email u) = lb_email b) rows = user # rest \<and>
           lb_email b = Some (u_email user) \<and> user \<in> set rows \<and>
           lb_password b = Some pw \<and> cmp pw (u_password user) \<and>
           u_status user = Some ''active'' \<and>
           code = 200 \<and> prof = view_of user \<and>
           tk_claims tok = \<lparr>pl_id = u_id user, pl_email = u_email user,
                             pl_role = u_role user, pl_name = u_full_name user\<rparr> \<and>
           tk_iat tok = now \<and> tk_exp tok = now + 24 * 60 * 60 \<and>
           users (tabs d') =
             Some (map (\<lambda>u. if u_id u = u_id user then u\<lparr>u_last_login := Some now\<rparr> else u) rows)"
proof -
  from assms obtain rows where rows: "users (tabs d) = Some rows"
    by (cases "users (tabs d)") (auto simp: login_def select_users_by_email_def)
  from assms rows obtain user rest where
    f: "filter (\<lambda>u. Some (u_email u) = lb_email b) rows = user # rest"
    by (cases "filter (\<lambda>u. Some (u_email u) = lb_email b) rows")
       (auto simp: login_def select_users_by_email_def)
  then have "user \<in> set (filter (\<lambda>u. Some (u_email u) = lb_email b) rows)" by simp
  then have m: "user \<in> set rows" "lb_email b = Some (u_email user)" by auto
  from assms rows f obtain pw where pw: "lb_password b = Some pw"
    by (cases "lb_password b") (auto simp: login_def select_users_by_email_def bcrypt_compare_def)
  from assms rows f pw have rest: "cmp pw (u_password user)" "u_status user = Some ''active''"
    "code = 200" "prof = view_of user"
    "tk_claims tok = \<lparr>pl_id = u_id user, pl_email = u_email user,
                             pl_role = u_role user, pl_name = u_full_name user\<rparr>"
    "tk_iat tok = now" "tk_exp tok = now + 24 * 60 * 60"
    "users (tabs d') =
             Some (map (\<lambda>u. if u_id u = u_id user then u\<lparr>u_last_login := Some now\<rparr> else u) rows)"
    by (auto simp: login_def select_users_by_email_def bcrypt_compare_def update_last_login_def
          jwt_sign_def split: if_splits)
  with rows f m pw show ?thesis by blast
qed

theorem login_token_witness:
  "login ex_cmp (Some ''secret'') 200 (ex_login_body ''a@x.com'' ''pw'') ex_shop =
     ((200, LoggedIn ''Login successful'' ex_token (view_of ex_alice_row)),
      ex_shop\<lparr>tabs := (tabs ex_shop)\<lparr>users :=
         Some [ex_alice_row\<lparr>u_last_login := Some 200\<rparr>, ex_bob_row]\<rparr>\<rparr>)
   \<and> ex_cmp ''pw'' (u_password ex_alice_row) \<and> u_status ex_alice_row = Some ''active''
   \<and> tk_exp ex_token = tk_iat ex_token + 86400
   \<and> fst (login ex_cmp (Some ''secret'') 200 (ex_login_body ''b@x.com'' ''bobpw'') ex_shop) =
       (400, Failure ''Account is pending approval. Please contact administrator.'')
   \<and> fst (login ex_cmp (Some ''secret'') 200 (ex_login_body ''a@x.com'' ''wrong'') ex_shop) =
       (400, Failure ''Invalid email or password'')"
proof -
  have run: "login ex_cmp (Some ''secret'') 200 (ex_login_body ''a@x.com'' ''pw'') ex_shop =
     ((200, LoggedIn ''Login successful'' ex_token (view_of ex_alice_row)),
      ex_shop\<lparr>tabs := (tabs ex_shop)\<lparr>users :=
         Some [ex_alice_row\<lparr>u_last_login := Some 200\<rparr>, ex_bob_row]\<rparr>\<rparr>)"
    by (simp add: ex_defs ex_login_body_def ex_token_def users_defs login_defs)
  have f: "filter (\<lambda>u. Some (u_email u) = lb_email (ex_login_body ''a@x.com'' ''pw''))
             [ex_alice_row, ex_bob_row] = [ex_alice_row]"
      "users (tabs ex_shop) = Some [ex_alice_row, ex_bob_row]"
    by (simp_all add: ex_defs ex_login_body_def)
  from login_token[OF run] f
  have "ex_cmp ''pw'' (u_password ex_alice_row) \<and> u_status ex_alice_row = Some ''active''
      \<and> tk_exp ex_token = 200 + 24 * 60 * 60 \<and> tk_iat ex_token = 200"
    by (auto simp: ex_login_body_def)
  moreover have
    "fst (login ex_cmp (Some ''secret'') 200 (ex_login_body ''b@x.com'' ''bobpw'') ex_shop) =
       (400, Failure ''Account is pending approval. Please contact administrator.'')"
    "fst (login ex_cmp (Some ''secret'') 200 (ex_login_body ''a@x.com'' ''wrong'') ex_shop) =
       (400, Failure ''Invalid email or password'')"
    by (simp_all add: ex_defs ex_login_body_def users_defs login_defs)
  ultimately show ?thesis using run by simp
qed

text \<open>
  Claim C6. A login whose e-mail matches no stored user is answered with status 400 and the
  message ``Invalid email or password''. A login whose e-mail matches a stored user gets
  exactly that answer when its password is a string that the comparison rejects; but when
  the request carries no password the comparison throws, and the answer is status 500
  with the thrown error: the two failures are then told apart, and with them a stored
  e-mail from an unknown one. Neither failure changes the database.
\<close>

theorem login_failure_responses:
  assumes "users (tabs d) = Some rows"
    and "filter (\<lambda>u. Some (u_email u) = lb_email b1) rows = []"
    and "filter (\<lambda>u. Some (u_email u) = lb_email b2) rows = user # rest"
  shows "login cmp secret now1 b1 d = ((400, Failure ''Invalid email or password''), d)
       \<and> (\<forall>pw. lb_password b2 = Some pw \<and> \<not> cmp pw (u_password user) \<longrightarrow>
            login cmp secret now2 b2 d = ((400, Failure ''Invalid email or password''), d))
       \<and> (lb_password b2 = None \<longrightarrow>
            login cmp secret now2 b2 d = ((500, Thrown ''Login failed: '' IllegalArguments), d)
            \<and> fst (login cmp secret now2 b2 d) \<noteq> fst (login cmp secret now1 b1 d))"
  using assms by (simp add: login_def select_users_by_email_def bcrypt_compare_def)

theorem login_failure_responses_witness:
  "login ex_cmp (Some ''secret'') 200 \<lparr>lb_email = Some ''nobody@x.com'', lb_password = None\<rparr>
      ex_shop = ((400, Failure ''Invalid email or password''), ex_shop)
   \<and> login ex_cmp (Some ''secret'') 200 \<lparr>lb_email = Some ''a@x.com'', lb_password = None\<rparr>
      ex_shop = ((500, Thrown ''Login failed: '' IllegalArguments), ex_shop)
   \<and> login ex_cmp (Some ''secret'') 200 (ex_login_body ''a@x.com'' ''wrong'') ex_shop =
        ((400, Failure ''Invalid email or password''), ex_shop)
   \<and> \<not> ex_cmp ''wrong'' (u_password ex_alice_row)
   \<and> u_email ex_alice_row = ''a@x.com''"
proof -
  have h: "users (tabs ex_shop) = Some [ex_alice_row, ex_bob_row]"
    "filter (\<lambda>u. Some (u_email u) = lb_email \<lparr>lb_email = Some ''nobody@x.com'', lb_password = None\<rparr>)
       [ex_alice_row, ex_bob_row] = []"
    "filter (\<lambda>u. Some (u_email u) = lb_email \<lparr>lb_email = Some ''a@x.com'', lb_password = None\<rparr>)
       [ex_alice_row, ex_bob_row] = ex_alice_row # []"
    by (simp_all add: ex_defs)
  have h3: "filter (\<lambda>u. Some (u_email u) = lb_email (ex_login_body ''a@x.com'' ''wrong''))
       [ex_alice_row, ex_bob_row] = ex_alice_row # []"
    by (simp add: ex_defs ex_login_body_def)
  have w: "lb_password (ex_login_body ''a@x.com'' ''wrong'') = Some ''wrong''"
      "\<not> ex_cmp ''wrong'' (u_password ex_alice_row)" "u_email ex_alice_row = ''a@x.com''"
    by (simp_all add: ex_defs ex_login_body_def)
  from login_failure_responses[where cmp = ex_cmp and secret = "Some ''secret''"
         and ?now1.0 = 200 and ?now2.0 = 200, OF h]
       login_failure_responses[where cmp = ex_cmp and secret = "Some ''secret''"
         and ?now1.0 = 200 and ?now2.0 = 200, OF h(1,2) h3] w
  show ?thesis by simp
qed

section \<open>Approval\<close>

lemma approve_fixpoint:
  "(\<lambda>u. if u_id u = i then u\<lparr>u_status := Some st\<rparr> else u) \<circ>
     (\<lambda>u. if u_id u = i then u\<lparr>u_status := Some st\<rparr> else u)
   = (\<lambda>u. if u_id u = i then u\<lparr>u_status := Some st\<rparr> else u)"
  by (auto simp: fun_eq_iff)

lemma approve_absent:
  "i \<notin> u_id ` set rows \<Longrightarrow>
     map (\<lambda>u. if u_id u = i then u\<lparr>u_status := Some st\<rparr> else u) rows = rows
     \<and> filter (\<lambda>u. u_id u = i) rows = []"
  by (induction rows) auto

lemma approve_active:
  assumes "distinct (map u_id rows)" "u \<in> set rows" "u_id u = i" "u_status u = Some st"
  shows "map (\<lambda>v. if u_id v = i then v\<lparr>u_status := Some st\<rparr> else v) rows = rows
       \<and> filter (\<lambda>v. u_id v = i) rows = [u]"
  using assms
proof (induction rows)
  case Nil
  then show ?case by simp
next
  case (Cons x xs)
  show ?case
  proof (cases "x = u")
    case True
    with Cons.prems have "i \<notin> u_id ` set xs" by auto
    from approve_absent[OF this, of st] True Cons.prems show ?thesis by simp
  next
    case False
    with Cons.prems have "u \<in> set xs" "u_id x \<noteq> i" by auto
    with Cons show ?thesis by simp
  qed
qed

lemma same_users [simp]:
  "users (tabs d) = Some rows \<Longrightarrow> d\<lparr>tabs := (tabs d)\<lparr>users := Some rows\<rparr>\<rparr> = d"
  by (cases d, cases "tabs d") auto

lemma approve_admin:
  assumes "admin_only req_user" "users (tabs d) = Some rows" "integer_of_text s = Inr i"
  shows "approve req_user s d =
     (let rows' = map (\<lambda>u. if u_id u = i then u\<lparr>u_status := Some ''active''\<rparr> else u) rows;
          d1 = d\<lparr>tabs := (tabs d)\<lparr>users := Some rows'\<rparr>\<rparr>
      in case filter (\<lambda>u. u_id u = i) rows' of
           [] \<Rightarrow> ((404, Failure ''User not found''), d1)
         | r # _ \<Rightarrow> ((200, Approved ''User approved successfully'' (view_of r)), d1))"
  using assms by (simp add: approve_def update_user_status_def Let_def)

text \<open>
  Claim C9, as amended. A caller whose role is neither superadmin nor admin gets 403 and
  changes nothing. For an administrator: a path id that is not the text of an integer in
  the range of the id column is answered with 500 and changes nothing; an id in that range
  that no user has is answered with 404 and changes nothing; a user that is already active
  is answered with 200 and the database is unchanged; any existing user is answered with
  200 and has status active afterwards; and approving a second time gives the same response
  and the same database as approving once.
\<close>

theorem approve_spec:
  "(\<not> admin_only req_user \<longrightarrow>
       approve req_user s d = ((403, ErrorOnly ''Access denied. Admin only.''), d))
   \<and> (admin_only req_user \<longleftrightarrow>
        pl_role req_user = Some ''superadmin'' \<or> pl_role req_user = Some ''admin'')
   \<and> (admin_only req_user \<and> users (tabs d) = Some rows \<and> integer_of_text s = Inl e \<longrightarrow>
        approve req_user s d = ((500, Thrown [] e), d))
   \<and> (admin_only req_user \<and> users (tabs d) = Some rows \<and> integer_of_text s = Inr i \<and>
        i \<notin> u_id ` set rows \<longrightarrow>
        approve req_user s d = ((404, Failure ''User not found''), d))
   \<and> (admin_only req_user \<and> users (tabs d) = Some rows \<and> integer_of_text s = Inr i \<and>
        distinct (map u_id rows) \<and> u \<in> set rows \<and> u_id u = i \<and> u_status u = Some ''active'' \<longrightarrow>
        approve req_user s d = ((200, Approved ''User approved successfully'' (view_of u)), d))
   \<and> (admin_only req_user \<and> users (tabs d) = Some rows \<and> integer_of_text s = Inr i \<and>
        u \<in> set rows \<and> u_id u = i \<longrightarrow>
        fst (fst (approve req_user s d)) = 200 \<and>
        users (tabs (snd (approve req_user s d))) =
          Some (map (\<lambda>v. if u_id v = i then v\<lparr>u_status := Some ''active''\<rparr> else v) rows))
   \<and> approve req_user s (snd (approve req_user s d)) = approve req_user s d"
proof -
  have c1: "\<not> admin_only req_user \<longrightarrow>
       approve req_user s d = ((403, ErrorOnly ''Access denied. Admin only.''), d)"
    by (simp add: approve_def)
  have c2: "admin_only req_user \<longleftrightarrow>
        pl_role req_user = Some ''superadmin'' \<or> pl_role req_user = Some ''admin''"
    by (auto simp: admin_only_def split: option.splits)
  have c0: "approve req_user s d = ((500, Thrown [] e), d)"
    if "admin_only req_user" "users (tabs d) = Some rows" "integer_of_text s = Inl e"
    using that by (simp add: approve_def update_user_status_def)
  have c3: "approve req_user s d = ((404, Failure ''User not found''), d)"
    if "admin_only req_user" "users (tabs d) = Some rows" "integer_of_text s = Inr i"
       "i \<notin> u_id ` set rows"
    using that(2) approve_absent[OF that(4), of "''active''"]
    by (simp add: approve_admin[OF that(1,2,3)])
  have c4: "approve req_user s d = ((200, Approved ''User approved successfully'' (view_of u)), d)"
    if "admin_only req_user" "users (tabs d) = Some rows" "integer_of_text s = Inr i"
       "distinct (map u_id rows)" "u \<in> set rows" "u_id u = i" "u_status u = Some ''active''"
    using that(2) approve_active[OF that(4,5,6,7)]
    by (simp add: approve_admin[OF that(1,2,3)])
  have c5: "fst (fst (approve req_user s d)) = 200 \<and>
        users (tabs (snd (approve req_user s d))) =
          Some (map (\<lambda>v. if u_id v = i then v\<lparr>u_status := Some ''active''\<rparr> else v) rows)"
    if "admin_only req_user" "users (tabs d) = Some rows" "integer_of_text s = Inr i"
       "u \<in> set rows" "u_id u = i"
  proof -
    from that(4,5) have "u\<lparr>u_status := Some ''active''\<rparr> \<in>
        set (filter (\<lambda>v. u_id v = i)
              (map (\<lambda>v. if u_id v = i then v\<lparr>u_status := Some ''active''\<rparr> else v) rows))"
      by (auto simp: image_iff intro!: bexI[of _ u])
    then obtain r rs where "filter (\<lambda>v. u_id v = i)
              (map (\<lambda>v. if u_id v = i then v\<lparr>u_status := Some ''active''\<rparr> else v) rows) = r # rs"
      by (cases "filter (\<lambda>v. u_id v = i)
              (map (\<lambda>v. if u_id v = i then v\<lparr>u_status := Some ''active''\<rparr> else v) rows)") auto
    then show ?thesis
      by (simp add: approve_admin[OF that(1,2,3)] Let_def)
  qed
  have c6: "approve req_user s (snd (approve req_user s d)) = approve req_user s d"
  proof (cases "admin_only req_user")
    case False
    then show ?thesis by (simp add: approve_def)
  next
    case True
    show ?thesis
    proof (cases "users (tabs d)")
      case None
      with True show ?thesis by (simp add: approve_def update_user_status_def)
    next
      case (Some rows)
      show ?thesis
      proof (cases "integer_of_text s")
        case (Inl e)
        with True Some show ?thesis by (simp add: approve_def update_user_status_def)
      next
        case (Inr i)
        let ?f = "\<lambda>u. if u_id u = i then u\<lparr>u_status := Some ''active''\<rparr> else u"
        let ?d1 = "d\<lparr>tabs := (tabs d)\<lparr>users := Some (map ?f rows)\<rparr>\<rparr>"
        have d1: "snd (approve req_user s d) = ?d1"
          by (simp add: approve_admin[OF True Some Inr] Let_def split: list.splits)
        have u1: "users (tabs ?d1) = Some (map ?f rows)" by simp
        show ?thesis
          unfolding d1
          by (simp add: approve_admin[OF True u1 Inr] approve_admin[OF True Some Inr] Let_def
                approve_fixpoint)
      qed
    qed
  qed
  from c0 c1 c2 c3 c4 c5 c6 show ?thesis by blast
qed

lemma integer_of_text_examples:
  "integer_of_text ''1'' = Inr 1" "integer_of_text ''2'' = Inr 2"
  "integer_of_text ''42'' = Inr 42"
  "integer_of_text ''4294967296'' = Inl NumericValueOutOfRange"
  "integer_of_text ''abc'' = Inl InvalidTextRepresentation"
  by (simp_all add: integer_of_text_def is_space_def is_digit_def digit_value_def decimal_def
        in_integer_def Let_def)

theorem approve_spec_witness:
  "\<not> admin_only ex_bob
   \<and> approve ex_bob ''2'' ex_shop = ((403, ErrorOnly ''Access denied. Admin only.''), ex_shop)
   \<and> admin_only ex_alice
   \<and> approve ex_alice ''42'' ex_shop = ((404, Failure ''User not found''), ex_shop)
   \<and> approve ex_alice ''1'' ex_shop =
        ((200, Approved ''User approved successfully'' (view_of ex_alice_row)), ex_shop)
   \<and> fst (fst (approve ex_alice ''2'' ex_shop)) = 200
   \<and> users (tabs (snd (approve ex_alice ''2'' ex_shop))) =
        Some [ex_alice_row, ex_bob_row\<lparr>u_status := Some ''active''\<rparr>]
   \<and> approve ex_alice ''2'' (snd (approve ex_alice ''2'' ex_shop)) = approve ex_alice ''2'' ex_shop
   \<and> approve ex_alice ''abc'' ex_shop = ((500, Thrown [] InvalidTextRepresentation), ex_shop)"
proof -
  note t = integer_of_text_examples
  have h: "\<not> admin_only ex_bob" "admin_only ex_alice"
    "users (tabs ex_shop) = Some [ex_alice_row, ex_bob_row]"
    "42 \<notin> u_id ` set [ex_alice_row, ex_bob_row]"
    "distinct (map u_id [ex_alice_row, ex_bob_row])"
    "ex_alice_row \<in> set [ex_alice_row, ex_bob_row]" "u_id ex_alice_row = 1"
    "u_status ex_alice_row = Some ''active''"
    "ex_bob_row \<in> set [ex_alice_row, ex_bob_row]" "u_id ex_bob_row = 2"
    by (simp_all add: ex_defs ex_bob_def admin_only_def)
  have m: "map (\<lambda>v. if u_id v = 2 then v\<lparr>u_status := Some ''active''\<rparr> else v)
             [ex_alice_row, ex_bob_row] = [ex_alice_row, ex_bob_row\<lparr>u_status := Some ''active''\<rparr>]"
    by (simp add: ex_defs)
  from approve_spec[of ex_bob "''2''" ex_shop "[]" QueryFault 2 ex_alice_row] h(1)
  have a: "approve ex_bob ''2'' ex_shop = ((403, ErrorOnly ''Access denied. Admin only.''), ex_shop)"
    by blast
  from approve_spec[of ex_alice "''42''" ex_shop "[ex_alice_row, ex_bob_row]" QueryFault 42
         ex_alice_row] h(2,3,4) t(3)
  have b: "approve ex_alice ''42'' ex_shop = ((404, Failure ''User not found''), ex_shop)"
    by blast
  from approve_spec[of ex_alice "''1''" ex_shop "[ex_alice_row, ex_bob_row]" QueryFault 1
         ex_alice_row] h(2,3,5-8) t(1)
  have c: "approve ex_alice ''1'' ex_shop =
        ((200, Approved ''User approved successfully'' (view_of ex_alice_row)), ex_shop)"
    by blast
  from approve_spec[of ex_alice "''2''" ex_shop "[ex_alice_row, ex_bob_row]" QueryFault 2
         ex_bob_row] h(2,3,9,10) t(2)
  have d: "fst (fst (approve ex_alice ''2'' ex_shop)) = 200"
    "users (tabs (snd (approve ex_alice ''2'' ex_shop))) =
          Some (map (\<lambda>v. if u_id v = 2 then v\<lparr>u_status := Some ''active''\<rparr> else v)
                  [ex_alice_row, ex_bob_row])"
    "approve ex_alice ''2'' (snd (approve ex_alice ''2'' ex_shop)) = approve ex_alice ''2'' ex_shop"
    by blast+
  from approve_spec[of ex_alice "''abc''" ex_shop "[ex_alice_row, ex_bob_row]"
         InvalidTextRepresentation 0 ex_alice_row] h(2,3) t(5)
  have e: "approve ex_alice ''abc'' ex_shop = ((500, Thrown [] InvalidTextRepresentation), ex_shop)"
    by blast
  from a b c d e h(1,2) show ?thesis unfolding m by simp
qed

text \<open>
  The claim as first stated (404 whenever no user has the given id) fails for a path id
  beyond the range of the id column, and for one that is not a number: no user has such an
  id, and the answer is 500.
\<close>

theorem approve_spec_counterexample:
  "admin_only ex_alice
   \<and> users (tabs ex_shop) = Some [ex_alice_row, ex_bob_row]
   \<and> 4294967296 \<notin> u_id ` set [ex_alice_row, ex_bob_row]
   \<and> decimal ''4294967296'' = 4294967296
   \<and> approve ex_alice ''4294967296'' ex_shop =
       ((500, Thrown [] NumericValueOutOfRange), ex_shop)
   \<and> approve ex_alice ''abc'' ex_shop = ((500, Thrown [] InvalidTextRepresentation), ex_shop)"
  by (simp add: ex_defs admin_only_def approve_def update_user_status_def integer_of_text_def
        is_space_def is_digit_def digit_value_def decimal_def in_integer_def Let_def)

section \<open>Creation of a product\<close>

lemma createProduct_validation:
  "fst (fst (createProduct now io req_user b d)) = 400 \<longleftrightarrow>
     \<not> truthy_str (pb_name b) \<or> \<not> truthy_str (pb_category b) \<or>
     \<not> truthy_num (pb_purchase_price b) \<or> \<not> truthy_num (pb_selling_price b)"
  by (auto simp: createProduct_def insert_product_def Let_def split: option.splits)

lemma createProduct_stores:
  assumes "truthy_str (pb_name b)" "truthy_str (pb_category b)"
    "truthy_num (pb_purchase_price b)" "truthy_num (pb_selling_price b)"
    "length (the (pb_name b)) \<le> 100" "length (the (pb_category b)) \<le> 50"
    "in_decimal (the (pb_purchase_price b))" "in_decimal (the (pb_selling_price b))"
    "in_integer (or_zero (pb_stock b))"
    "products (tabs d) = Some rows" "products_id_seq (seqs d) \<notin> p_id ` set rows"
    "in_integer (products_id_seq (seqs d))"
  shows "\<exists>row d'. createProduct now io req_user b d =
            ((200, ProductStored row), d', io_emit io (Product_created row (pl_name req_user)))
          \<and> products (tabs d') = Some (rows @ [row])
          \<and> p_name row = the (pb_name b) \<and> p_category row = the (pb_category b)
          \<and> p_purchase_price row = the (pb_purchase_price b)
          \<and> p_selling_price row = the (pb_selling_price b)
          \<and> p_stock row = (case pb_stock b of None \<Rightarrow> 0 | Some s \<Rightarrow> s)"
  using assms
  by (auto simp: createProduct_def insert_product_def Let_def or_zero_def truthy_num_def
        split: option.splits)

text \<open>
  Claim C8. The validation of a new product tests the truthiness of the four fields, so
  every request with a purchase price or a selling price of 0 is answered with 400 and the
  message that the fields are required, whatever its other fields are, and nothing is
  stored or broadcast.
\<close>

theorem createProduct_zero_price_rejected:
  assumes "pb_purchase_price b = Some 0 \<or> pb_selling_price b = Some 0"
  shows "createProduct now io req_user b d =
           ((400, Failure ''Name, category, purchase price, and selling price are required''),
            d, [])"
  using assms by (auto simp: createProduct_def truthy_num_def)

theorem createProduct_zero_price_rejected_witness:
  "pb_name ex_free_body = Some ''CD-C'' \<and> pb_category ex_free_body = Some ''music''
   \<and> pb_purchase_price ex_free_body = Some 0 \<and> pb_selling_price ex_free_body = Some 1000
   \<and> createProduct 100 ex_io ex_alice ex_free_body ex_shop =
       ((400, Failure ''Name, category, purchase price, and selling price are required''),
        ex_shop, [])
   \<and> fst (fst (createProduct 100 ex_io ex_alice ex_product_body ex_shop)) = 200"
proof -
  have z: "pb_purchase_price ex_free_body = Some 0 \<or> pb_selling_price ex_free_body = Some 0"
    by (simp add: ex_free_body_def)
  have "fst (fst (createProduct 100 ex_io ex_alice ex_product_body ex_shop)) = 200"
    by (simp add: ex_defs ex_product_body_def createProduct_def insert_product_def
          truthy_str_def truthy_num_def or_zero_def io_emit_def column_defs Let_def)
  with createProduct_zero_price_rejected[OF z, of 100 ex_io ex_alice ex_shop]
  show ?thesis by (simp add: ex_free_body_def)
qed

section \<open>The transaction of a sale\<close>

lemma pool_connect_idle:
  "\<not> connect_fails flt \<Longrightarrow> pool_connect flt (idle_pool d) = Inr (connected_client d)"
  by (simp add: pool_connect_def idle_pool_def connected_client_def)

lemma client_query_tx:
  assumes "cl_tx c = InTransaction w" and "client_query flt c stmt = (c', r)"
  shows "tabs (cl_db c') = tabs (cl_db c)"
    and "cl_tx c' \<noteq> NoTransaction"
    and "r = Inr v \<Longrightarrow> \<exists>d'. stmt \<lparr>tabs = w, seqs = seqs (cl_db c)\<rparr> = (d', Inr v) \<and>
           cl_tx c' = InTransaction (tabs d')"
  using assms
  by (auto simp: client_query_def Let_def after_error_def split: if_splits prod.splits sum.splits)

lemma insert_sale_item_ok:
  assumes "insert_sale_item sid pid q up tp d = (d', Inr row)"
  shows "\<exists>rows. sale_items (tabs d) = Some rows \<and>
           tabs d' = (tabs d)\<lparr>sale_items := Some (rows @ [row])\<rparr>"
    and "si_sale_id row = Some sid" and "si_product_id row = pid" and "si_quantity row = q"
    and "si_unit_price row = up" and "si_total_price row = tp"
    and "pid = Some p \<Longrightarrow> has_key p_id (products (tabs d)) p"
  using assms
  by (auto simp: insert_sale_item_def Let_def split: option.splits if_splits)

lemma update_stock_ok:
  assumes "update_stock q pid d = (d', Inr u)"
  shows "tabs d' = (tabs d)\<lparr>products :=
           map_option (map (\<lambda>p. if Some (p_id p) = pid then p\<lparr>p_stock := p_stock p - q\<rparr> else p))
             (products (tabs d))\<rparr>"
  using assms by (auto simp: update_stock_def split: option.splits if_splits)

lemma sale_loop_tx:
  assumes "cl_tx c = InTransaction w" and "sale_loop flt sid items c = (c', r)"
  shows "tabs (cl_db c') = tabs (cl_db c) \<and> cl_tx c' \<noteq> NoTransaction"
  using assms
proof (induction items arbitrary: c w)
  case Nil
  then show ?case by simp
next
  case (Cons item rest)
  obtain c1 r1 where q1: "client_query flt c
             (insert_sale_item sid (li_product_id item) (li_quantity item) (li_unit_price item)
                (li_quantity item * li_unit_price item)) = (c1, r1)" by force
  note a1 = client_query_tx(1,2)[OF Cons.prems(1) q1]
  show ?case
  proof (cases r1)
    case (Inl e)
    with Cons.prems(2) q1 a1 show ?thesis by auto
  next
    case (Inr row)
    obtain c2 r2 where q2: "client_query flt c1 (update_stock (li_quantity item) (li_product_id item)) = (c2, r2)"
      by force
    from client_query_tx(3)[OF Cons.prems(1) q1 Inr] obtain w1 where
      w1: "cl_tx c1 = InTransaction w1" by auto
    note a2 = client_query_tx(1,2)[OF w1 q2]
    show ?thesis
    proof (cases r2)
      case (Inl e)
      with Cons.prems(2) q1 q2 a1 a2 Inr show ?thesis by auto
    next
      case r2: (Inr u)
      from client_query_tx(3)[OF w1 q2 r2] obtain w2 where
        w2: "cl_tx c2 = InTransaction w2" by auto
      from Cons.prems(2) q1 q2 Inr r2 have "sale_loop flt sid rest c2 = (c', r)" by simp
      from Cons.IH[OF w2 this] a1 a2 show ?thesis by simp
    qed
  qed
qed

lemma sale_loop_ok:
  assumes "cl_tx c = InTransaction w" and "sale_loop flt sid items c = (c', Inr u)"
  shows "\<exists>w' new. cl_tx c' = InTransaction w' \<and> users w' = users w \<and> sales w' = sales w \<and>
           products w' = map_option
              (map (\<lambda>p. p\<lparr>p_stock := p_stock p - quantity_sold (p_id p) items\<rparr>)) (products w) \<and>
           sale_items w' = map_option (\<lambda>rows. rows @ new) (sale_items w) \<and>
           list_all2 (snapshot_of sid) new items \<and>
           (\<forall>item\<in>set items. \<forall>p. li_product_id item = Some p \<longrightarrow> has_key p_id (products w) p)"
  using assms
proof (induction items arbitrary: c w)
  case Nil
  then show ?case by (auto simp: quantity_sold_def option.map_ident intro!: exI[of _ "[]"])
next
  case (Cons item rest)
  obtain c1 r1 where q1: "client_query flt c
             (insert_sale_item sid (li_product_id item) (li_quantity item) (li_unit_price item)
                (li_quantity item * li_unit_price item)) = (c1, r1)" by force
  with Cons.prems(2) obtain row where r1: "r1 = Inr row" by (cases r1) auto
  from client_query_tx(3)[OF Cons.prems(1) q1 r1] obtain d1 where
    s1: "insert_sale_item sid (li_product_id item) (li_quantity item) (li_unit_price item)
                (li_quantity item * li_unit_price item) \<lparr>tabs = w, seqs = seqs (cl_db c)\<rparr> = (d1, Inr row)"
    and w1: "cl_tx c1 = InTransaction (tabs d1)" by auto
  obtain c2 r2 where q2: "client_query flt c1 (update_stock (li_quantity item) (li_product_id item)) = (c2, r2)"
    by force
  with Cons.prems(2) q1 r1 obtain u2 where r2: "r2 = Inr u2" by (cases r2) auto
  from client_query_tx(3)[OF w1 q2 r2] obtain d2 where
    s2: "update_stock (li_quantity item) (li_product_id item) \<lparr>tabs = tabs d1, seqs = seqs (cl_db c1)\<rparr> = (d2, Inr u2)"
    and w2: "cl_tx c2 = InTransaction (tabs d2)" by auto
  from Cons.prems(2) q1 q2 r1 r2 have rest: "sale_loop flt sid rest c2 = (c', Inr u)" by simp
  from Cons.IH[OF w2 rest] obtain w' new where
    ih: "cl_tx c' = InTransaction w'" "users w' = users (tabs d2)" "sales w' = sales (tabs d2)"
      "products w' = map_option
              (map (\<lambda>p. p\<lparr>p_stock := p_stock p - quantity_sold (p_id p) rest\<rparr>)) (products (tabs d2))"
      "sale_items w' = map_option (\<lambda>rows. rows @ new) (sale_items (tabs d2))"
      "list_all2 (snapshot_of sid) new rest"
      "\<forall>item\<in>set rest. \<forall>p. li_product_id item = Some p \<longrightarrow> has_key p_id (products (tabs d2)) p"
    by blast
  from insert_sale_item_ok(1)[OF s1] obtain rows where
    t1: "sale_items w = Some rows" "tabs d1 = w\<lparr>sale_items := Some (rows @ [row])\<rparr>" by auto
  have snap: "snapshot_of sid row item"
    using insert_sale_item_ok(2-6)[OF s1] by (simp add: snapshot_of_def)
  from update_stock_ok[OF s2] have
    t2: "tabs d2 = (tabs d1)\<lparr>products :=
           map_option (map (\<lambda>p. if Some (p_id p) = li_product_id item
                then p\<lparr>p_stock := p_stock p - li_quantity item\<rparr> else p))
             (products (tabs d1))\<rparr>" by simp
  have prod: "products w' = map_option
              (map (\<lambda>p. p\<lparr>p_stock := p_stock p - quantity_sold (p_id p) (item # rest)\<rparr>)) (products w)"
    unfolding ih(4) t2 t1(2)
    by (cases "products w") (auto simp: quantity_sold_def)
  have "sale_items w' = map_option (\<lambda>rows. rows @ (row # new)) (sale_items w)"
    unfolding ih(5) t2 t1 by simp
  moreover have "list_all2 (snapshot_of sid) (row # new) (item # rest)"
    using snap ih(6) by simp
  moreover have "users w' = users w" "sales w' = sales w"
    unfolding ih(2,3) t2 t1(2) by simp_all
  moreover have "\<forall>it\<in>set (item # rest). \<forall>p. li_product_id it = Some p \<longrightarrow> has_key p_id (products w) p"
  proof (intro ballI allI impI)
    fix it p assume it: "it \<in> set (item # rest)" and p: "li_product_id it = Some p"
    show "has_key p_id (products w) p"
    proof (cases "it = item")
      case True
      with insert_sale_item_ok(7)[OF s1] p show ?thesis by simp
    next
      case False
      with it ih(7) p have "has_key p_id (products (tabs d2)) p" by auto
      then show ?thesis unfolding t2 t1(2)
        by (cases "products w") (auto simp: has_key_def)
    qed
  qed
  ultimately show ?case using ih(1) prod by blast
qed

lemma client_begin_cases:
  assumes "client_begin flt (connected_client d) = (c1, r)"
  shows "cl_db c1 = d" and "r = Inr u \<Longrightarrow> cl_tx c1 = InTransaction (tabs d)"
    and "r = Inl e \<Longrightarrow> cl_tx c1 = NoTransaction \<and> query_fails flt 0"
  using assms
  by (auto simp: client_begin_def connected_client_def after_error_def Let_def split: if_splits)

lemma client_commit_cases:
  assumes "client_commit flt c = (c', r)" and "cl_tx c = InTransaction w"
  shows "r = Inl e \<Longrightarrow> tabs (cl_db c') = tabs (cl_db c) \<and> cl_tx c' \<noteq> NoTransaction"
    and "r = Inr u \<Longrightarrow> tabs (cl_db c') = w \<and> cl_tx c' = NoTransaction"
  using assms by (auto simp: client_commit_def after_error_def Let_def split: if_splits)

lemma client_rollback_cases:
  assumes "client_rollback flt c = (c', r)"
  shows "cl_db c' = cl_db c"
    and "query_fails flt (cl_issued c) \<Longrightarrow> r = Inl QueryFault \<and> cl_tx c' = cl_tx c"
    and "\<not> query_fails flt (cl_issued c) \<Longrightarrow> r = Inr () \<and> cl_tx c' = NoTransaction"
  using assms by (auto simp: client_rollback_def Let_def split: if_splits)

lemma insert_sale_ok:
  assumes "insert_sale now cust tot uid d = (d', Inr row)"
  shows "\<exists>rows. sales (tabs d) = Some rows \<and> tabs d' = (tabs d)\<lparr>sales := Some (rows @ [row])\<rparr>"
    and "s_total row = tot" and "s_user_id row = Some uid"
    and "s_date row = CURRENT_DATE now"
  using assms
  by (auto simp: insert_sale_def Let_def split: option.splits if_splits)

lemma sale_try_failure:
  assumes "sale_try flt now req_user b (connected_client d) = (c, Inl e)"
  shows "tabs (cl_db c) = tabs d \<and> (\<not> query_fails flt 0 \<longrightarrow> cl_tx c \<noteq> NoTransaction)"
proof -
  obtain c1 r1 where b1: "client_begin flt (connected_client d) = (c1, r1)" by force
  note db1 = client_begin_cases(1)[OF b1]
  show ?thesis
  proof (cases r1)
    case (Inl e1)
    with assms b1 db1 client_begin_cases(3)[OF b1 Inl] show ?thesis
      by (simp add: sale_try_def)
  next
    case (Inr u1)
    from client_begin_cases(2)[OF b1 Inr] have w1: "cl_tx c1 = InTransaction (tabs d)" .
    show ?thesis
    proof (cases "sb_items b")
      case None
      with assms b1 Inr db1 w1 show ?thesis by (auto simp: sale_try_def)
    next
      case (Some items)
      obtain c2 r2 where q2: "client_query flt c1
          (insert_sale now (sb_customer b) (items_total items) (pl_id req_user)) = (c2, r2)"
        by force
      note a2 = client_query_tx(1,2)[OF w1 q2]
      show ?thesis
      proof (cases r2)
        case (Inl e2)
        with assms b1 Inr Some q2 a2 db1 show ?thesis by (simp add: sale_try_def)
      next
        case r2: (Inr sale)
        from client_query_tx(3)[OF w1 q2 r2] obtain w2 where
          w2: "cl_tx c2 = InTransaction w2" by auto
        obtain c3 r3 where q3: "sale_loop flt (s_id sale) items c2 = (c3, r3)" by force
        note a3 = sale_loop_tx[OF w2 q3]
        show ?thesis
        proof (cases r3)
          case (Inl e3)
          with assms b1 Inr Some q2 r2 q3 a2 a3 db1 show ?thesis by (simp add: sale_try_def)
        next
          case r3: (Inr u3)
          from sale_loop_ok[OF w2 q3[unfolded r3]] obtain w3 where
            w3: "cl_tx c3 = InTransaction w3" by blast
          obtain c4 r4 where q4: "client_commit flt c3 = (c4, r4)" by force
          with assms b1 Inr Some q2 r2 q3 r3 have "c4 = c" "r4 = Inl e"
            by (auto simp: sale_try_def split: sum.splits)
          with client_commit_cases(1)[OF q4 w3] a2 a3 db1 show ?thesis by simp
        qed
      qed
    qed
  qed
qed

lemma sale_try_success:
  assumes "sale_try flt now req_user b (connected_client d) = (c, Inr (sale, items))"
  shows "\<exists>old new. sb_items b = Some items \<and> sales (tabs d) = Some old \<and>
           s_total sale = items_total items \<and>
           s_user_id sale = Some (pl_id req_user) \<and>
           list_all2 (snapshot_of (s_id sale)) new items \<and>
           (\<forall>item\<in>set items. \<forall>p. li_product_id item = Some p
              \<longrightarrow> has_key p_id (products (tabs d)) p) \<and>
           cl_tx c = NoTransaction \<and>
           tabs (cl_db c) = (tabs d)\<lparr>
             sales := Some (old @ [sale]),
             products := map_option
               (map (\<lambda>p. p\<lparr>p_stock := p_stock p - quantity_sold (p_id p) items\<rparr>))
               (products (tabs d)),
             sale_items := map_option (\<lambda>rows. rows @ new) (sale_items (tabs d))\<rparr>"
proof -
  obtain c1 r1 where b1: "client_begin flt (connected_client d) = (c1, r1)" by force
  with assms obtain u1 where r1: "r1 = Inr u1" by (cases r1) (auto simp: sale_try_def)
  note db1 = client_begin_cases(1)[OF b1]
  from client_begin_cases(2)[OF b1 r1] have w1: "cl_tx c1 = InTransaction (tabs d)" .
  from assms b1 r1 obtain its where its: "sb_items b = Some its"
    by (cases "sb_items b") (auto simp: sale_try_def)
  obtain c2 r2 where q2: "client_query flt c1
      (insert_sale now (sb_customer b) (items_total its) (pl_id req_user)) = (c2, r2)"
    by force
  with assms b1 r1 its obtain sl where r2: "r2 = Inr sl"
    by (cases r2) (auto simp: sale_try_def)
  from client_query_tx(3)[OF w1 q2 r2] obtain d2 where
    s2: "insert_sale now (sb_customer b) (items_total its) (pl_id req_user)
           \<lparr>tabs = tabs d, seqs = seqs (cl_db c1)\<rparr> = (d2, Inr sl)"
    and w2: "cl_tx c2 = InTransaction (tabs d2)" by auto
  obtain c3 r3 where q3: "sale_loop flt (s_id sl) its c2 = (c3, r3)" by force
  with assms b1 r1 its q2 r2 obtain u3 where r3: "r3 = Inr u3"
    by (cases r3) (auto simp: sale_try_def)
  obtain c4 r4 where q4: "client_commit flt c3 = (c4, r4)" by force
  with assms b1 r1 its q2 r2 q3 r3 have fin: "c4 = c" "r4 = Inr ()" "sl = sale" "its = items"
    by (auto simp: sale_try_def split: sum.splits)
  from sale_loop_ok[OF w2 q3[unfolded r3]] obtain w' new where
    lp: "cl_tx c3 = InTransaction w'" "users w' = users (tabs d2)" "sales w' = sales (tabs d2)"
      "products w' = map_option
              (map (\<lambda>p. p\<lparr>p_stock := p_stock p - quantity_sold (p_id p) its\<rparr>)) (products (tabs d2))"
      "sale_items w' = map_option (\<lambda>rows. rows @ new) (sale_items (tabs d2))"
      "list_all2 (snapshot_of (s_id sl)) new its"
      "\<forall>item\<in>set its. \<forall>p. li_product_id item = Some p
          \<longrightarrow> has_key p_id (products (tabs d2)) p" by blast
  from client_commit_cases(2)[OF q4 lp(1) fin(2)] fin(1)
  have cw: "tabs (cl_db c) = w'" "cl_tx c = NoTransaction" by simp_all
  from insert_sale_ok(1)[OF s2] obtain old where
    t2: "sales (tabs d) = Some old" "tabs d2 = (tabs d)\<lparr>sales := Some (old @ [sl])\<rparr>" by auto
  have "w' = (tabs d)\<lparr>
             sales := Some (old @ [sl]),
             products := map_option
               (map (\<lambda>p. p\<lparr>p_stock := p_stock p - quantity_sold (p_id p) its\<rparr>))
               (products (tabs d)),
             sale_items := map_option (\<lambda>rows. rows @ new) (sale_items (tabs d))\<rparr>"
    using lp(2-5) unfolding t2(2) by (intro tables.equality) simp_all
  moreover have "products (tabs d2) = products (tabs d)"
    unfolding t2(2) by simp
  ultimately show ?thesis
    using cw t2(1) its fin(3,4) lp(6,7) insert_sale_ok(2,3)[OF s2] by auto
qed

lemma items_total_sum:
  "items_total items = (\<Sum>item\<leftarrow>items. li_quantity item * li_unit_price item)"
proof -
  have "foldl (\<lambda>sum item. sum + li_quantity item * li_unit_price item) a items
          = a + (\<Sum>item\<leftarrow>items. li_quantity item * li_unit_price item)" for a
    by (induction items arbitrary: a) simp_all
  then show ?thesis by (simp add: items_total_def)
qed

lemma find_map_stock:
  "find (\<lambda>p. p_id p = P) (map (\<lambda>p. p\<lparr>p_stock := f p\<rparr>) ps)
     = map_option (\<lambda>p. p\<lparr>p_stock := f p\<rparr>) (find (\<lambda>p. p_id p = P) ps)"
  by (induction ps) simp_all

lemma find_p_id: "find (\<lambda>p. p_id p = P) ps = Some p \<Longrightarrow> p_id p = P"
  by (induction ps) (auto split: if_splits)

lemma stock_of_after:
  assumes "products (tabs d') = map_option
             (map (\<lambda>p. p\<lparr>p_stock := p_stock p - quantity_sold (p_id p) items\<rparr>))
             (products (tabs d))"
  shows "stock_of d' P = map_option (\<lambda>s. s - quantity_sold P items) (stock_of d P)"
proof (cases "products (tabs d)")
  case None
  with assms show ?thesis by (simp add: stock_of_def)
next
  case (Some ps)
  show ?thesis
  proof (cases "find (\<lambda>p. p_id p = P) ps")
    case None
    with Some assms show ?thesis by (simp add: stock_of_def find_map_stock)
  next
    case (Some p)
    with find_p_id[OF Some] \<open>products (tabs d) = Some ps\<close> assms show ?thesis
      by (simp add: stock_of_def find_map_stock)
  qed
qed

lemma has_key_stock_of:
  "has_key p_id (products (tabs d)) P \<Longrightarrow> \<exists>s. stock_of d P = Some s"
proof -
  assume h: "has_key p_id (products (tabs d)) P"
  then obtain ps where ps: "products (tabs d) = Some ps" "P \<in> p_id ` set ps"
    by (auto simp: has_key_def split: option.splits)
  then have "find (\<lambda>p. p_id p = P) ps \<noteq> None"
    by (auto simp: find_None_iff)
  with ps show ?thesis by (auto simp: stock_of_def)
qed

lemma createSale_cases:
  assumes "createSale flt now io req_user b (idle_pool d) = (resp, p', evs)"
  shows "connect_fails flt \<Longrightarrow> resp = None \<and> p' = idle_pool d \<and> evs = []"
    and "\<not> connect_fails flt \<Longrightarrow>
           sale_try flt now req_user b (connected_client d) = (c, Inl e) \<Longrightarrow>
           p' = client_release (fst (client_rollback flt c)) \<and> evs = [] \<and>
           resp = (if query_fails flt (cl_issued c) then None else Some (500, Thrown [] e))"
    and "\<not> connect_fails flt \<Longrightarrow>
           sale_try flt now req_user b (connected_client d) = (c, Inr (sale, items)) \<Longrightarrow>
           resp = Some (200, SaleStored sale) \<and> p' = client_release c \<and>
           evs = io_emit io (Sale_created sale items (pl_name req_user))"
proof -
  show "resp = None \<and> p' = idle_pool d \<and> evs = []" if "connect_fails flt"
    using assms that by (simp add: createSale_def pool_connect_def)
  show "p' = client_release (fst (client_rollback flt c)) \<and> evs = [] \<and>
           resp = (if query_fails flt (cl_issued c) then None else Some (500, Thrown [] e))"
    if "\<not> connect_fails flt" "sale_try flt now req_user b (connected_client d) = (c, Inl e)"
    using assms that
    by (auto simp: createSale_def pool_connect_idle client_rollback_def Let_def)
  show "resp = Some (200, SaleStored sale) \<and> p' = client_release c \<and>
           evs = io_emit io (Sale_created sale items (pl_name req_user))"
    if "\<not> connect_fails flt"
       "sale_try flt now req_user b (connected_client d) = (c, Inr (sale, items))"
    using assms that by (simp add: createSale_def pool_connect_idle)
qed

text \<open>
  Claim C1. A sale never leaves a sale row, a sale item row or a stock change behind unless
  every step succeeded, and a line that references a product id that no product has always
  makes a step throw; but the error response is not always sent. When the pool refuses
  the client, the handler throws before its \<^verbatim>\<open>try\<close> block and sends no response. When a
  step of the \<^verbatim>\<open>try\<close> block throws, the persisted tables are the tables before the
  request and nothing is broadcast, and unless it was \<^verbatim>\<open>BEGIN\<close> that failed the
  transaction is still open or failed. If \<^verbatim>\<open>ROLLBACK\<close> then succeeds, the client goes
  back to the pool without a transaction and the answer is 500 with the error; if
  \<^verbatim>\<open>ROLLBACK\<close> throws as well, as it does on a lost connection, no response is sent and
  the client goes back to the pool with its transaction as it was.
\<close>

theorem createSale_failure:
  assumes "createSale flt now io req_user b (idle_pool d) = (resp, p', evs)"
  shows "(connect_fails flt \<longrightarrow> resp = None \<and> p' = idle_pool d \<and> evs = [])
       \<and> (\<not> connect_fails flt \<longrightarrow>
            (\<forall>c e. sale_try flt now req_user b (connected_client d) = (c, Inl e) \<longrightarrow>
               tabs (po_db p') = tabs d \<and> evs = [] \<and>
               (\<not> query_fails flt 0 \<longrightarrow> cl_tx c \<noteq> NoTransaction) \<and>
               (if query_fails flt (cl_issued c) then resp = None \<and> po_tx p' = cl_tx c
                else resp = Some (500, Thrown [] e) \<and> po_tx p' = NoTransaction)))
       \<and> (\<forall>items item p. sb_items b = Some items \<and> item \<in> set items \<and>
             li_product_id item = Some p \<and> \<not> has_key p_id (products (tabs d)) p \<longrightarrow>
            (\<exists>c e. sale_try flt now req_user b (connected_client d) = (c, Inl e)))
       \<and> ((\<exists>bd. resp = Some (200, bd)) \<or> connect_fails flt \<or>
            (\<exists>c e. sale_try flt now req_user b (connected_client d) = (c, Inl e)))"
proof -
  obtain c r where t: "sale_try flt now req_user b (connected_client d) = (c, r)" by force
  have refused: "resp = None \<and> p' = idle_pool d \<and> evs = []" if "connect_fails flt"
    by (rule createSale_cases(1)[OF assms that])
  have thrown: "tabs (po_db p') = tabs d \<and> evs = [] \<and>
               (\<not> query_fails flt 0 \<longrightarrow> cl_tx c' \<noteq> NoTransaction) \<and>
               (if query_fails flt (cl_issued c') then resp = None \<and> po_tx p' = cl_tx c'
                else resp = Some (500, Thrown [] e) \<and> po_tx p' = NoTransaction)"
    if "\<not> connect_fails flt"
       "sale_try flt now req_user b (connected_client d) = (c', Inl e)" for c' e
  proof -
    obtain c2 r2 where rb: "client_rollback flt c' = (c2, r2)" by force
    from createSale_cases(2)[OF assms that] rb
    have p: "p' = client_release c2" "evs = []"
      "resp = (if query_fails flt (cl_issued c') then None else Some (500, Thrown [] e))"
      by simp_all
    from client_rollback_cases[OF rb] sale_try_failure[OF that(2)] p
    show ?thesis by (auto simp: client_release_def)
  qed
  have bad: "\<exists>c e. sale_try flt now req_user b (connected_client d) = (c, Inl e)"
    if a: "sb_items b = Some items \<and> item \<in> set items \<and>
             li_product_id item = Some p \<and> \<not> has_key p_id (products (tabs d)) p"
    for items item p
  proof (cases r)
    case (Inl e)
    with t show ?thesis by simp
  next
    case (Inr v)
    obtain sale its where v: "v = (sale, its)" by force
    from sale_try_success[OF t[unfolded Inr v]] a show ?thesis by auto
  qed
  have either: "(\<exists>bd. resp = Some (200, bd)) \<or> connect_fails flt \<or>
            (\<exists>c e. sale_try flt now req_user b (connected_client d) = (c, Inl e))"
  proof (cases r)
    case (Inl e)
    with t show ?thesis by simp
  next
    case (Inr v)
    obtain sale its where v: "v = (sale, its)" by force
    show ?thesis
    proof (cases "connect_fails flt")
      case True
      then show ?thesis by simp
    next
      case False
      from createSale_cases(3)[OF assms False t[unfolded Inr v]] show ?thesis by simp
    qed
  qed
  from refused thrown bad either show ?thesis by blast
qed

theorem createSale_failure_witness:
  "createSale ex_unreachable 100 ex_io ex_alice ex_sale_body (idle_pool ex_shop) =
     (None, idle_pool ex_shop, [])
   \<and> connect_fails ex_unreachable
   \<and> createSale ex_lost 100 ex_io ex_alice ex_sale_body (idle_pool ex_shop) =
     (None, \<lparr>po_db = ex_shop\<lparr>seqs := (seqs ex_shop)\<lparr>sales_id_seq := 2\<rparr>\<rparr>,
             po_tx = FailedTransaction\<rparr>, [])
   \<and> createSale no_fault 100 ex_io ex_alice ex_bad_body (idle_pool ex_shop) =
     (Some (500, Thrown [] ForeignKeyViolation),
      idle_pool (ex_shop\<lparr>seqs := (seqs ex_shop)\<lparr>sales_id_seq := 2, sale_items_id_seq := 3\<rparr>\<rparr>),
      [])
   \<and> \<not> has_key p_id (products (tabs ex_shop)) 99
   \<and> createSale no_fault 100 ex_io ex_alice ex_long_body (idle_pool ex_shop) =
     (Some (500, Thrown [] StringDataRightTruncation),
      idle_pool (ex_shop\<lparr>seqs := (seqs ex_shop)\<lparr>sales_id_seq := 2\<rparr>\<rparr>), [])"
proof -
  have run1: "createSale ex_unreachable 100 ex_io ex_alice ex_sale_body (idle_pool ex_shop) =
     (None, idle_pool ex_shop, [])"
    by (simp add: ex_unreachable_def createSale_def pool_connect_def)
  have run2: "createSale ex_lost 100 ex_io ex_alice ex_sale_body (idle_pool ex_shop) =
     (None, \<lparr>po_db = ex_shop\<lparr>seqs := (seqs ex_shop)\<lparr>sales_id_seq := 2\<rparr>\<rparr>,
             po_tx = FailedTransaction\<rparr>, [])"
    by (simp add: ex_defs ex_lost_def ex_sale_body_def sale_defs column_defs)
  have run3: "createSale no_fault 100 ex_io ex_alice ex_bad_body (idle_pool ex_shop) =
     (Some (500, Thrown [] ForeignKeyViolation),
      idle_pool (ex_shop\<lparr>seqs := (seqs ex_shop)\<lparr>sales_id_seq := 2, sale_items_id_seq := 3\<rparr>\<rparr>),
      [])"
    by (simp add: ex_defs ex_bad_body_def sale_defs column_defs)
  have run4: "createSale no_fault 100 ex_io ex_alice ex_long_body (idle_pool ex_shop) =
     (Some (500, Thrown [] StringDataRightTruncation),
      idle_pool (ex_shop\<lparr>seqs := (seqs ex_shop)\<lparr>sales_id_seq := 2\<rparr>\<rparr>), [])"
    by (simp add: ex_defs ex_long_body_def sale_defs column_defs)
  have bad: "sb_items ex_bad_body = Some [ex_line 1 3 1000, ex_line 99 1 500]
      \<and> ex_line 99 1 500 \<in> set [ex_line 1 3 1000, ex_line 99 1 500]
      \<and> li_product_id (ex_line 99 1 500) = Some 99
      \<and> \<not> has_key p_id (products (tabs ex_shop)) 99"
    by (simp add: ex_defs ex_bad_body_def has_key_def)
  have f: "connect_fails ex_unreachable" "\<not> connect_fails no_fault"
    by (simp_all add: ex_unreachable_def no_fault_def)
  from createSale_failure[OF run3] bad
  obtain c e where t: "sale_try no_fault 100 ex_alice ex_bad_body (connected_client ex_shop)
      = (c, Inl e)"
    by blast
  from createSale_failure[OF run3] f(2) t
  have "tabs (ex_shop\<lparr>seqs := (seqs ex_shop)\<lparr>sales_id_seq := 2, sale_items_id_seq := 3\<rparr>\<rparr>)
          = tabs ex_shop"
    by (simp add: idle_pool_def)
  with createSale_failure[OF run1] f(1) run1 run2 run3 run4 bad show ?thesis by simp
qed

lemma createSale_200:
  assumes "createSale flt now io req_user b (idle_pool d) = (Some (200, bd), p', evs)"
  shows "\<exists>c sale items.
           sale_try flt now req_user b (connected_client d) = (c, Inr (sale, items))
           \<and> bd = SaleStored sale \<and> p' = client_release c
           \<and> evs = io_emit io (Sale_created sale items (pl_name req_user))"
proof -
  have nc: "\<not> connect_fails flt"
    using createSale_cases(1)[OF assms] by auto
  obtain c r where t: "sale_try flt now req_user b (connected_client d) = (c, r)" by force
  show ?thesis
  proof (cases r)
    case (Inl e)
    from createSale_cases(2)[OF assms nc t[unfolded Inl]] show ?thesis
      by (simp split: if_splits)
  next
    case (Inr v)
    obtain sale its where v: "v = (sale, its)" by force
    from createSale_cases(3)[OF assms nc t[unfolded Inr v]] t Inr v show ?thesis by simp
  qed
qed

lemma sale_try_ignores_total:
  "sale_try flt now req_user (b\<lparr>sb_total := t\<rparr>) c = sale_try flt now req_user b c"
  by (simp add: sale_try_def split: prod.split sum.split option.split)

text \<open>
  Claim C2. After a sale that is answered with 200, the sale row appended to the sales table
  and returned to the caller has as its total the sum over the items of the request of
  quantity times unit price; a total sent in the request body changes nothing of the
  outcome.
\<close>

theorem createSale_total:
  assumes "createSale flt now io req_user b (idle_pool d) = (Some (200, bd), p', evs)"
  shows "\<exists>items sale old. sb_items b = Some items \<and> bd = SaleStored sale \<and>
           sales (tabs d) = Some old \<and> sales (tabs (po_db p')) = Some (old @ [sale]) \<and>
           po_tx p' = NoTransaction \<and>
           s_total sale = (\<Sum>item\<leftarrow>items. li_quantity item * li_unit_price item) \<and>
           (\<forall>t p. createSale flt now io req_user (b\<lparr>sb_total := t\<rparr>) p =
                  createSale flt now io req_user b p)"
proof -
  from createSale_200[OF assms] obtain c sale items where
    t: "sale_try flt now req_user b (connected_client d) = (c, Inr (sale, items))"
    and r: "bd = SaleStored sale" "p' = client_release c" by blast
  from sale_try_success[OF t] obtain old new where
    s: "sb_items b = Some items" "sales (tabs d) = Some old" "s_total sale = items_total items"
       "cl_tx c = NoTransaction"
       "tabs (cl_db c) = (tabs d)\<lparr>
             sales := Some (old @ [sale]),
             products := map_option
               (map (\<lambda>p. p\<lparr>p_stock := p_stock p - quantity_sold (p_id p) items\<rparr>))
               (products (tabs d)),
             sale_items := map_option (\<lambda>rows. rows @ new) (sale_items (tabs d))\<rparr>"
    by blast
  have "sales (tabs (po_db p')) = Some (old @ [sale])" "po_tx p' = NoTransaction"
    unfolding r(2) client_release_def using s(4,5) by simp_all
  moreover have "createSale flt now io req_user (b\<lparr>sb_total := t\<rparr>) p =
                createSale flt now io req_user b p" for t p
    by (simp add: createSale_def sale_try_ignores_total split: sum.split)
  ultimately show ?thesis using s(1,2,3) r(1) by (auto simp: items_total_sum)
qed

theorem createSale_total_witness:
  "createSale no_fault 100 ex_io ex_alice ex_sale_body (idle_pool ex_shop) =
     (Some (200, SaleStored ex_sale_row),
      fst (snd (createSale no_fault 100 ex_io ex_alice ex_sale_body (idle_pool ex_shop))),
      snd (snd (createSale no_fault 100 ex_io ex_alice ex_sale_body (idle_pool ex_shop))))
   \<and> sb_total ex_sale_body = Some 1
   \<and> sales (tabs (po_db (fst (snd
        (createSale no_fault 100 ex_io ex_alice ex_sale_body (idle_pool ex_shop))))))
        = Some [ex_sale_row]
   \<and> s_total ex_sale_row = 3 * 1000"
proof -
  have run: "createSale no_fault 100 ex_io ex_alice ex_sale_body (idle_pool ex_shop) =
     (Some (200, SaleStored ex_sale_row),
      fst (snd (createSale no_fault 100 ex_io ex_alice ex_sale_body (idle_pool ex_shop))),
      snd (snd (createSale no_fault 100 ex_io ex_alice ex_sale_body (idle_pool ex_shop))))"
    by (simp add: ex_defs ex_sale_body_def ex_sale_row_def sale_defs column_defs)
  have "sales (tabs ex_shop) = Some []" "sb_items ex_sale_body = Some [ex_line 1 3 1000]"
    by (simp_all add: ex_defs ex_sale_body_def)
  with createSale_total[OF run] run show ?thesis
    by (auto simp: ex_sale_body_def ex_line_def)
qed

text \<open>
  Claim C3, as amended. After a sale that is answered with 200, the stock of every product
  is its stock before the sale minus the total quantity of the lines of the request that
  reference it; for a line (P, Q) the product P exists, and when it is the only line for
  P that total is Q. The sale item rows appended are, in order, snapshots of the lines:
  sale id, product id, quantity, unit price, and quantity times unit price as line total.
\<close>

theorem createSale_stock:
  assumes "createSale flt now io req_user b (idle_pool d) = (Some (200, bd), p', evs)"
  shows "\<exists>items sale new. sb_items b = Some items \<and> bd = SaleStored sale \<and>
           (\<forall>P. stock_of (po_db p') P
                  = map_option (\<lambda>s. s - quantity_sold P items) (stock_of d P)) \<and>
           (\<forall>item\<in>set items. \<forall>P. li_product_id item = Some P \<longrightarrow>
              (\<exists>s. stock_of d P = Some s \<and>
                   stock_of (po_db p') P = Some (s - quantity_sold P items)) \<and>
              (filter (\<lambda>it. li_product_id it = Some P) items = [item] \<longrightarrow>
                 quantity_sold P items = li_quantity item)) \<and>
           sale_items (tabs (po_db p'))
             = map_option (\<lambda>rows. rows @ new) (sale_items (tabs d)) \<and>
           list_all2 (snapshot_of (s_id sale)) new items"
proof -
  from createSale_200[OF assms] obtain c sale items where
    t: "sale_try flt now req_user b (connected_client d) = (c, Inr (sale, items))"
    and r: "bd = SaleStored sale" "p' = client_release c" by blast
  from sale_try_success[OF t] obtain old new where
    s: "sb_items b = Some items"
       "list_all2 (snapshot_of (s_id sale)) new items"
       "\<forall>item\<in>set items. \<forall>p. li_product_id item = Some p
              \<longrightarrow> has_key p_id (products (tabs d)) p"
       "tabs (cl_db c) = (tabs d)\<lparr>
             sales := Some (old @ [sale]),
             products := map_option
               (map (\<lambda>p. p\<lparr>p_stock := p_stock p - quantity_sold (p_id p) items\<rparr>))
               (products (tabs d)),
             sale_items := map_option (\<lambda>rows. rows @ new) (sale_items (tabs d))\<rparr>"
    by blast
  have db: "po_db p' = cl_db c" unfolding r(2) client_release_def by simp
  have pr: "products (tabs (po_db p')) = map_option
             (map (\<lambda>p. p\<lparr>p_stock := p_stock p - quantity_sold (p_id p) items\<rparr>))
             (products (tabs d))" unfolding db s(4) by simp
  have st: "stock_of (po_db p') P
              = map_option (\<lambda>s. s - quantity_sold P items) (stock_of d P)" for P
    by (rule stock_of_after[OF pr])
  have si: "sale_items (tabs (po_db p'))
              = map_option (\<lambda>rows. rows @ new) (sale_items (tabs d))"
    unfolding db s(4) by simp
  have ln: "\<forall>item\<in>set items. \<forall>P. li_product_id item = Some P \<longrightarrow>
              (\<exists>s. stock_of d P = Some s \<and>
                   stock_of (po_db p') P = Some (s - quantity_sold P items)) \<and>
              (filter (\<lambda>it. li_product_id it = Some P) items = [item] \<longrightarrow>
                 quantity_sold P items = li_quantity item)"
  proof (intro ballI allI impI conjI)
    fix item P assume i: "item \<in> set items" "li_product_id item = Some P"
    with s(3) have "has_key p_id (products (tabs d)) P" by blast
    from has_key_stock_of[OF this] obtain s0 where "stock_of d P = Some s0" by blast
    with st[of P] show "\<exists>s. stock_of d P = Some s \<and>
        stock_of (po_db p') P = Some (s - quantity_sold P items)"
      by simp
  next
    fix item P assume "filter (\<lambda>it. li_product_id it = Some P) items = [item]"
    then show "quantity_sold P items = li_quantity item" by (simp add: quantity_sold_def)
  qed
  from s(1) r(1) st ln si s(2) show ?thesis by blast
qed

theorem createSale_stock_witness:
  "fst (createSale no_fault 100 ex_io ex_alice ex_two_body (idle_pool ex_shop)) =
     Some (200, SaleStored \<lparr>s_id = 1, s_date = 0, s_customer = ''Dave'', s_total = 5200,
                             s_user_id = Some 1, s_created_at = 100\<rparr>)
   \<and> stock_of ex_shop 1 = Some 20
   \<and> stock_of (po_db (fst (snd
        (createSale no_fault 100 ex_io ex_alice ex_two_body (idle_pool ex_shop))))) 1 = Some 16
   \<and> stock_of ex_shop 2 = Some 5
   \<and> stock_of (po_db (fst (snd
        (createSale no_fault 100 ex_io ex_alice ex_two_body (idle_pool ex_shop))))) 2 = Some 4"
proof -
  let ?r = "createSale no_fault 100 ex_io ex_alice ex_two_body (idle_pool ex_shop)"
  have res: "fst ?r = Some (200, SaleStored \<lparr>s_id = 1, s_date = 0, s_customer = ''Dave'',
                        s_total = 5200, s_user_id = Some 1, s_created_at = 100\<rparr>)"
    by (simp add: ex_defs ex_two_body_def sale_defs column_defs)
  then have run: "?r = (Some (200, SaleStored \<lparr>s_id = 1, s_date = 0, s_customer = ''Dave'',
                        s_total = 5200, s_user_id = Some 1, s_created_at = 100\<rparr>),
                        fst (snd ?r), snd (snd ?r))"
    by (metis prod.collapse)
  have its: "sb_items ex_two_body = Some [ex_line 1 4 1000, ex_line 2 1 1200]"
    by (simp add: ex_two_body_def)
  have q: "quantity_sold 1 [ex_line 1 4 1000, ex_line 2 1 1200] = 4"
      "quantity_sold 2 [ex_line 1 4 1000, ex_line 2 1 1200] = 1"
    by (simp_all add: quantity_sold_def ex_line_def)
  have s: "stock_of ex_shop 1 = Some 20" "stock_of ex_shop 2 = Some 5"
    by (simp_all add: stock_of_def ex_defs)
  from createSale_stock[OF run] its
  have "\<forall>P. stock_of (po_db (fst (snd ?r))) P
          = map_option (\<lambda>s. s - quantity_sold P [ex_line 1 4 1000, ex_line 2 1 1200]) (stock_of ex_shop P)"
    by auto
  with q s res show ?thesis by simp
qed

text \<open>
  The claim as first stated (stock after = stock before - Q for a line (P, Q)) fails for a
  request with two lines for one product: the stock of product 1 goes from 20 to 15, not to
  18.
\<close>

theorem createSale_stock_counterexample:
  "map_option fst (fst (createSale no_fault 100 ex_io ex_alice ex_twice_body (idle_pool ex_shop)))
     = Some 200
   \<and> ex_line 1 2 1000 \<in> set (the (sb_items ex_twice_body))
   \<and> stock_of ex_shop 1 = Some 20
   \<and> stock_of (po_db (fst (snd
        (createSale no_fault 100 ex_io ex_alice ex_twice_body (idle_pool ex_shop))))) 1
        = Some 15
   \<and> (15::int) \<noteq> 20 - 2"
  by (simp add: ex_defs ex_twice_body_def sale_defs column_defs stock_of_def)

text \<open>
  Claim C7, as amended. After a sale that is answered with 200, the event \<^verbatim>\<open>sale_created\<close> with the
  sale, the items of the request and the name of the recording user is delivered to every
  connected socket, the sockets of the recording user included. Only the relay of an event
  that a client pushes over its socket leaves out the socket it came from.
\<close>

theorem createSale_broadcast:
  assumes "createSale flt now io req_user b (idle_pool d) = (Some (200, bd), p', evs)"
  shows "\<exists>sale items. bd = SaleStored sale \<and> sb_items b = Some items \<and>
           evs = map (\<lambda>s. (s, Sale_created sale items (pl_name req_user))) (connected io) \<and>
           fst ` set evs = set (connected io) \<and>
           fst ` set (on_sale_created io sock data t) = set (connected io) - {sock}"
proof -
  from createSale_200[OF assms] obtain c sale items where
    t: "sale_try flt now req_user b (connected_client d) = (c, Inr (sale, items))"
    and r: "bd = SaleStored sale"
       "evs = io_emit io (Sale_created sale items (pl_name req_user))" by blast
  from sale_try_success[OF t] have i: "sb_items b = Some items" by blast
  have "fst ` set evs = set (connected io)"
    unfolding r(2) io_emit_def by (auto simp: image_iff)
  moreover have "fst ` set (on_sale_created io sock data t) = set (connected io) - {sock}"
    unfolding on_sale_created_def socket_broadcast_emit_def by (auto simp: image_iff)
  ultimately show ?thesis using r i by (simp add: io_emit_def)
qed

theorem createSale_broadcast_witness:
  "map_option fst (fst (createSale no_fault 100 ex_io ex_alice ex_two_body (idle_pool ex_shop)))
     = Some 200
   \<and> fst ` set (snd (snd
        (createSale no_fault 100 ex_io ex_alice ex_two_body (idle_pool ex_shop))))
        = {''s1'', ''s2''}
   \<and> fst ` set (on_sale_created ex_io ''s1'' ''data'' 5) = {''s2''}"
proof -
  let ?r = "createSale no_fault 100 ex_io ex_alice ex_two_body (idle_pool ex_shop)"
  have res: "fst ?r = Some (200, SaleStored \<lparr>s_id = 1, s_date = 0, s_customer = ''Dave'',
                        s_total = 5200, s_user_id = Some 1, s_created_at = 100\<rparr>)"
    by (simp add: ex_defs ex_two_body_def sale_defs column_defs)
  then have run: "?r = (Some (200, SaleStored \<lparr>s_id = 1, s_date = 0, s_customer = ''Dave'',
                        s_total = 5200, s_user_id = Some 1, s_created_at = 100\<rparr>),
                        fst (snd ?r), snd (snd ?r))"
    by (metis prod.collapse)
  have c: "set (connected ex_io) = {''s1'', ''s2''}" "{''s1'', ''s2''} - {''s1''} = {''s2''}"
    by (auto simp: ex_defs)
  from createSale_broadcast[OF run, of "''s1''" "''data''" 5] c res
  show ?thesis by auto
qed

text \<open>
  The claim as first stated (the connection that originated the sale never receives the
  event) fails: the user of socket \<open>s1\<close> records a sale, and \<open>s1\<close> is among the sockets the
  event is delivered to.
\<close>

theorem createSale_broadcast_counterexample:
  "map_option fst (fst (createSale no_fault 100 ex_io ex_alice ex_sale_body (idle_pool ex_shop)))
     = Some 200
   \<and> ''s1'' \<in> set (connected ex_io)
   \<and> map_option ud_id (activeUsers ex_io ''s1'') = Some (pl_id ex_alice)
   \<and> ''s1'' \<in> fst ` set (snd (snd
        (createSale no_fault 100 ex_io ex_alice ex_sale_body (idle_pool ex_shop))))"
  by (simp add: ex_defs ex_sale_body_def sale_defs column_defs)

section \<open>Initialisation\<close>

lemma initializeDatabase_fresh_tables:
  assumes "users (tabs d) = None" "products (tabs d) = None" "sales (tabs d) = None"
    "sale_items (tabs d) = None" "length (hash ''admin123'') \<le> 255"
  shows "initializeDatabase hash now d =
           (\<lparr>tabs = \<lparr>users = Some [default_admin hash now], products = Some [],
                     sales = Some [], sale_items = Some []\<rparr>,
             seqs = \<lparr>users_id_seq = 2, products_id_seq = 1, sales_id_seq = 1,
                      sale_items_id_seq = 1\<rparr>\<rparr>, Inr ())"
  using assms
  by (simp add: initializeDatabase_def create_users_def create_products_def create_sales_def
        create_sale_items_def insert_user_def in_integer_def Let_def default_admin_def)

text \<open>
  Claim C10, as amended. Run against a database that has none of the four tables,
  \<^verbatim>\<open>initializeDatabase\<close> creates them and inserts the default account Super Admin,
  \<^verbatim>\<open>admin@disc.com\<close>, with role superadmin and status active (the hash of its password
  fits the password column, as the 60 characters of a bcrypt hash do). The users table is
  then not empty, and every registration that is answered with 200 gets role cashier,
  status pending and \<^verbatim>\<open>requiresApproval\<close> true: no caller of register becomes the
  super-administrator.
\<close>

theorem initializeDatabase_default_admin:
  assumes "users (tabs d) = None" "products (tabs d) = None" "sales (tabs d) = None"
    "sale_items (tabs d) = None" "length (hash ''admin123'') \<le> 255"
  shows "\<exists>d1. initializeDatabase hash now d = (d1, Inr ()) \<and>
           users (tabs d1) = Some [default_admin hash now] \<and>
           products (tabs d1) = Some [] \<and> sales (tabs d1) = Some [] \<and>
           sale_items (tabs d1) = Some [] \<and>
           (\<forall>hash' now' b bd d2. register hash' now' b d1 = ((200, bd), d2) \<longrightarrow>
              (\<exists>v. bd = Registered ''Registration successful! Please wait for admin approval.''
                          v now' True \<and>
                   uv_role v = Some ''cashier'' \<and> uv_status v = Some ''pending''))"
proof -
  let ?d1 = "\<lparr>tabs = \<lparr>users = Some [default_admin hash now], products = Some [],
                     sales = Some [], sale_items = Some []\<rparr>,
             seqs = \<lparr>users_id_seq = 2, products_id_seq = 1, sales_id_seq = 1,
                      sale_items_id_seq = 1\<rparr>\<rparr>"
  have i: "initializeDatabase hash now d = (?d1, Inr ())"
    by (rule initializeDatabase_fresh_tables[where hash = hash, OF assms])
  have "\<exists>v. bd = Registered ''Registration successful! Please wait for admin approval.''
                          v now' True \<and>
                   uv_role v = Some ''cashier'' \<and> uv_status v = Some ''pending''"
    if r: "register hash' now' b ?d1 = ((200, bd), d2)" for hash' now' b bd d2
  proof -
    let ?fn = "the (rb_full_name b)" and ?em = "the (rb_email b)"
    let ?pw = "hash' (the (rb_password b))"
    obtain d3 res where ins: "insert_user now' ?fn ?em ?pw ''cashier'' ''pending'' ?d1 = (d3, res)"
      by force
    from r ins obtain row where res: "res = Inr row"
      by (cases res)
         (auto simp: register_def select_users_by_email_def count_users_def Let_def
               split: if_splits)
    from r ins res have bd:
      "bd = Registered ''Registration successful! Please wait for admin approval.''
              (view_of row) (u_created_at row) True"
      by (auto simp: register_def select_users_by_email_def count_users_def Let_def
            split: if_splits)
    from insert_user_ok(2-4)[OF ins[unfolded res]] bd show ?thesis
      by (simp add: view_of_def)
  qed
  then have reg: "\<forall>hash' now' b bd d2. register hash' now' b ?d1 = ((200, bd), d2) \<longrightarrow>
              (\<exists>v. bd = Registered ''Registration successful! Please wait for admin approval.''
                          v now' True \<and>
                   uv_role v = Some ''cashier'' \<and> uv_status v = Some ''pending'')"
    by blast
  have t: "users (tabs ?d1) = Some [default_admin hash now]" "products (tabs ?d1) = Some []"
    "sales (tabs ?d1) = Some []" "sale_items (tabs ?d1) = Some []"
    by simp_all
  from i t reg show ?thesis by blast
qed

theorem initializeDatabase_default_admin_witness:
  "users (tabs ex_fresh) = None \<and> products (tabs ex_fresh) = None
   \<and> sales (tabs ex_fresh) = None \<and> sale_items (tabs ex_fresh) = None
   \<and> length (ex_hash ''admin123'') \<le> 255
   \<and> users (tabs (fst (initializeDatabase ex_hash 5 ex_fresh))) = Some [default_admin ex_hash 5]
   \<and> register ex_hash 9 (ex_register_body ''Alice'' ''a@x.com'' ''pw'')
            (fst (initializeDatabase ex_hash 5 ex_fresh)) =
       ((200, Registered ''Registration successful! Please wait for admin approval.''
               \<lparr>uv_id = 2, uv_full_name = ''Alice'', uv_email = ''a@x.com'',
                uv_role = Some ''cashier'', uv_status = Some ''pending''\<rparr> 9 True),
        snd (register ex_hash 9 (ex_register_body ''Alice'' ''a@x.com'' ''pw'')
            (fst (initializeDatabase ex_hash 5 ex_fresh))))"
proof -
  have h: "users (tabs ex_fresh) = None" "products (tabs ex_fresh) = None"
    "sales (tabs ex_fresh) = None" "sale_items (tabs ex_fresh) = None"
    "length (ex_hash ''admin123'') \<le> 255"
    by (simp_all add: ex_fresh_def ex_hash_def)
  have f: "fst (register ex_hash 9 (ex_register_body ''Alice'' ''a@x.com'' ''pw'')
            (fst (initializeDatabase ex_hash 5 ex_fresh))) =
       (200, Registered ''Registration successful! Please wait for admin approval.''
               \<lparr>uv_id = 2, uv_full_name = ''Alice'', uv_email = ''a@x.com'',
                uv_role = Some ''cashier'', uv_status = Some ''pending''\<rparr> 9 True)"
    by (simp add: ex_fresh_def ex_hash_def ex_register_body_def initializeDatabase_def
          create_users_def create_products_def create_sales_def create_sale_items_def
          users_defs register_defs column_defs)
  then have run: "register ex_hash 9 (ex_register_body ''Alice'' ''a@x.com'' ''pw'')
            (fst (initializeDatabase ex_hash 5 ex_fresh)) =
       ((200, Registered ''Registration successful! Please wait for admin approval.''
               \<lparr>uv_id = 2, uv_full_name = ''Alice'', uv_email = ''a@x.com'',
                uv_role = Some ''cashier'', uv_status = Some ''pending''\<rparr> 9 True),
        snd (register ex_hash 9 (ex_register_body ''Alice'' ''a@x.com'' ''pw'')
            (fst (initializeDatabase ex_hash 5 ex_fresh))))"
    by (metis prod.collapse)
  from initializeDatabase_default_admin[where hash = ex_hash and now = 5, OF h]
  obtain d1 where
    r: "initializeDatabase ex_hash 5 ex_fresh = (d1, Inr ())"
       "users (tabs d1) = Some [default_admin ex_hash 5]"
       "\<forall>hash' now' b bd d2. register hash' now' b d1 = ((200, bd), d2) \<longrightarrow>
              (\<exists>v. bd = Registered ''Registration successful! Please wait for admin approval.''
                          v now' True \<and>
                   uv_role v = Some ''cashier'' \<and> uv_status v = Some ''pending'')"
    by blast
  from r(1) have d1: "fst (initializeDatabase ex_hash 5 ex_fresh) = d1" by simp
  from r(3) run[unfolded d1] have
    "\<exists>v. Registered ''Registration successful! Please wait for admin approval.''
               \<lparr>uv_id = 2, uv_full_name = ''Alice'', uv_email = ''a@x.com'',
                uv_role = Some ''cashier'', uv_status = Some ''pending''\<rparr> 9 True
          = Registered ''Registration successful! Please wait for admin approval.'' v 9 True
          \<and> uv_role v = Some ''cashier'' \<and> uv_status v = Some ''pending''"
    by blast
  with h r(2) d1 run show ?thesis by simp
qed

text \<open>
  The claim as first stated (for every database without a users table) fails when another
  of the tables exists: creating the products table throws, the function ends with an empty
  users table and no default account, and the first registration becomes the
  super-administrator.
\<close>

theorem initializeDatabase_default_admin_counterexample:
  "users (tabs ex_half) = None
   \<and> initializeDatabase ex_hash 5 ex_half =
       (ex_half\<lparr>tabs := (tabs ex_half)\<lparr>users := Some []\<rparr>,
                seqs := (seqs ex_half)\<lparr>users_id_seq := 1\<rparr>\<rparr>, Inl DuplicateTable)
   \<and> users (tabs (fst (initializeDatabase ex_hash 5 ex_half))) = Some []
   \<and> fst (register ex_hash 9 (ex_register_body ''Alice'' ''a@x.com'' ''pw'')
            (fst (initializeDatabase ex_hash 5 ex_half))) =
       (200, Registered ''Super Admin created successfully!''
               \<lparr>uv_id = 1, uv_full_name = ''Alice'', uv_email = ''a@x.com'',
                uv_role = Some ''superadmin'', uv_status = Some ''active''\<rparr> 9 False)"
  by (simp add: ex_half_def ex_cd_a_def ex_hash_def ex_register_body_def
        initializeDatabase_def create_users_def create_products_def create_sales_def
        create_sale_items_def users_defs register_defs column_defs)

end
